theory Spec2Isabelle
  imports Complex_Main "HOL-Library.Word"
begin

section \<open>Numbers and small tensors\<close>

text \<open>
  The estimator of \<^verbatim>\<open>estimator_helpers.py\<close> computes on NumPy and PyTorch floats.
  Throughout this development a finite float is idealised as a real number (no rounding,
  no overflow).  Values that the renderer, the depth map and the loss may carry and that
  need not be finite (\<^verbatim>\<open>inf\<close>, \<^verbatim>\<open>-inf\<close>, \<^verbatim>\<open>nan\<close>) are kept apart in the
  type \<open>tfloat\<close>: all three are lumped into \<open>NonFin\<close>, which is absorbing for the
  operations the loss uses (subtraction, squaring, summation, division by a count,
  multiplication by the constant \<^verbatim>\<open>l = 1\<close>), exactly as in IEEE arithmetic.
\<close>

datatype tfloat = Fin real | NonFin

fun tsub :: "tfloat \<Rightarrow> tfloat \<Rightarrow> tfloat" where
  "tsub (Fin a) (Fin b) = Fin (a - b)"
| "tsub _ _ = NonFin"

fun tadd :: "tfloat \<Rightarrow> tfloat \<Rightarrow> tfloat" where
  "tadd (Fin a) (Fin b) = Fin (a + b)"
| "tadd _ _ = NonFin"

fun tmul :: "tfloat \<Rightarrow> tfloat \<Rightarrow> tfloat" where
  "tmul (Fin a) (Fin b) = Fin (a * b)"
| "tmul _ _ = NonFin"

fun tdivn :: "tfloat \<Rightarrow> nat \<Rightarrow> tfloat" where
  "tdivn (Fin a) n = (if n = 0 then NonFin else Fin (a / real n))"
| "tdivn NonFin n = NonFin"

fun is_finite :: "tfloat \<Rightarrow> bool" where
  "is_finite (Fin a) = True"
| "is_finite NonFin = False"

text \<open>\<^verbatim>\<open>torch.mean\<close> of a flat tensor; the mean of an empty tensor is \<^verbatim>\<open>nan\<close>.\<close>

definition torch_mean :: "tfloat list \<Rightarrow> tfloat" where
  "torch_mean xs = tdivn (foldl tadd (Fin 0) xs) (length xs)"

type_synonym vec3 = "real \<times> real \<times> real"
type_synonym mat3 = "vec3 \<times> vec3 \<times> vec3"
type_synonym vec4 = "real \<times> real \<times> real \<times> real"
type_synonym mat4 = "vec4 \<times> vec4 \<times> vec4 \<times> vec4"

text \<open>Matrices are tuples of rows; the shapes \<open>(3,3)\<close>, \<open>(3,)\<close> and \<open>(4,4)\<close> of the
  source's tensors are fixed by the types.\<close>

definition zeros33 :: mat3 where
  "zeros33 = ((0, 0, 0), (0, 0, 0), (0, 0, 0))"

definition zeros44 :: mat4 where
  "zeros44 = ((0, 0, 0, 0), (0, 0, 0, 0), (0, 0, 0, 0), (0, 0, 0, 0))"

definition eye3 :: mat3 where
  "eye3 = ((1, 0, 0), (0, 1, 0), (0, 0, 1))"

definition eye4 :: mat4 where
  "eye4 = ((1, 0, 0, 0), (0, 1, 0, 0), (0, 0, 1, 0), (0, 0, 0, 1))"

fun vget3 :: "vec3 \<Rightarrow> nat \<Rightarrow> real" where
  "vget3 (a, b, c) i = (if i = 0 then a else if i = 1 then b else c)"

fun vset3 :: "vec3 \<Rightarrow> nat \<Rightarrow> real \<Rightarrow> vec3" where
  "vset3 (a, b, c) i x = (if i = 0 then (x, b, c) else if i = 1 then (a, x, c) else (a, b, x))"

fun mset33 :: "mat3 \<Rightarrow> nat \<Rightarrow> nat \<Rightarrow> real \<Rightarrow> mat3" where
  "mset33 (r0, r1, r2) i j x =
     (if i = 0 then (vset3 r0 j x, r1, r2)
      else if i = 1 then (r0, vset3 r1 j x, r2)
      else (r0, r1, vset3 r2 j x))"

fun vscale3 :: "real \<Rightarrow> vec3 \<Rightarrow> vec3" where
  "vscale3 s (a, b, c) = (s * a, s * b, s * c)"

fun vadd3 :: "vec3 \<Rightarrow> vec3 \<Rightarrow> vec3" where
  "vadd3 (a, b, c) (a', b', c') = (a + a', b + b', c + c')"

fun dot3 :: "vec3 \<Rightarrow> vec3 \<Rightarrow> real" where
  "dot3 (a, b, c) (a', b', c') = a * a' + b * b' + c * c'"

fun mscale3 :: "real \<Rightarrow> mat3 \<Rightarrow> mat3" where
  "mscale3 s (r0, r1, r2) = (vscale3 s r0, vscale3 s r1, vscale3 s r2)"

fun madd3 :: "mat3 \<Rightarrow> mat3 \<Rightarrow> mat3" where
  "madd3 (r0, r1, r2) (q0, q1, q2) = (vadd3 r0 q0, vadd3 r1 q1, vadd3 r2 q2)"

fun transpose3 :: "mat3 \<Rightarrow> mat3" where
  "transpose3 ((a, b, c), (d, e, f), (g, h, i)) = ((a, d, g), (b, e, h), (c, f, i))"

fun matvec3 :: "mat3 \<Rightarrow> vec3 \<Rightarrow> vec3" where
  "matvec3 (r0, r1, r2) u = (dot3 r0 u, dot3 r1 u, dot3 r2 u)"

definition matmul3 :: "mat3 \<Rightarrow> mat3 \<Rightarrow> mat3" where
  "matmul3 a b =
     (case transpose3 b of (c0, c1, c2) \<Rightarrow>
        (case a of (r0, r1, r2) \<Rightarrow>
           ((dot3 r0 c0, dot3 r0 c1, dot3 r0 c2),
            (dot3 r1 c0, dot3 r1 c1, dot3 r1 c2),
            (dot3 r2 c0, dot3 r2 c1, dot3 r2 c2))))"

fun dot4 :: "vec4 \<Rightarrow> vec4 \<Rightarrow> real" where
  "dot4 (a, b, c, d) (a', b', c', d') = a * a' + b * b' + c * c' + d * d'"

fun transpose4 :: "mat4 \<Rightarrow> mat4" where
  "transpose4 ((a0, a1, a2, a3), (b0, b1, b2, b3), (c0, c1, c2, c3), (d0, d1, d2, d3)) =
     ((a0, b0, c0, d0), (a1, b1, c1, d1), (a2, b2, c2, d2), (a3, b3, c3, d3))"

definition matmul4 :: "mat4 \<Rightarrow> mat4 \<Rightarrow> mat4" where
  "matmul4 a b =
     (case transpose4 b of (c0, c1, c2, c3) \<Rightarrow>
        (case a of (r0, r1, r2, r3) \<Rightarrow>
           ((dot4 r0 c0, dot4 r0 c1, dot4 r0 c2, dot4 r0 c3),
            (dot4 r1 c0, dot4 r1 c1, dot4 r1 c2, dot4 r1 c3),
            (dot4 r2 c0, dot4 r2 c1, dot4 r2 c2, dot4 r2 c3),
            (dot4 r3 c0, dot4 r3 c1, dot4 r3 c2, dot4 r3 c3))))"

text \<open>The slice assignments of \<^verbatim>\<open>camera_transf.forward\<close>:
  \<^verbatim>\<open>m[:3, :3] = r\<close>, \<^verbatim>\<open>m[:3, 3] = t\<close> and \<^verbatim>\<open>m[3, 3] = x\<close>, and the matching reads.\<close>

fun set_block33 :: "mat4 \<Rightarrow> mat3 \<Rightarrow> mat4" where
  "set_block33 ((a0, a1, a2, a3), (b0, b1, b2, b3), (c0, c1, c2, c3), r3)
               ((x0, x1, x2), (y0, y1, y2), (z0, z1, z2)) =
     ((x0, x1, x2, a3), (y0, y1, y2, b3), (z0, z1, z2, c3), r3)"

fun set_col3 :: "mat4 \<Rightarrow> vec3 \<Rightarrow> mat4" where
  "set_col3 ((a0, a1, a2, a3), (b0, b1, b2, b3), (c0, c1, c2, c3), r3) (x, y, z) =
     ((a0, a1, a2, x), (b0, b1, b2, y), (c0, c1, c2, z), r3)"

fun set_33 :: "mat4 \<Rightarrow> real \<Rightarrow> mat4" where
  "set_33 (r0, r1, r2, (d0, d1, d2, d3)) x = (r0, r1, r2, (d0, d1, d2, x))"

fun block33 :: "mat4 \<Rightarrow> mat3" where
  "block33 ((a0, a1, a2, a3), (b0, b1, b2, b3), (c0, c1, c2, c3), r3) =
     ((a0, a1, a2), (b0, b1, b2), (c0, c1, c2))"

fun col3 :: "mat4 \<Rightarrow> vec3" where
  "col3 ((a0, a1, a2, a3), (b0, b1, b2, b3), (c0, c1, c2, c3), r3) = (a3, b3, c3)"

fun bottom_row :: "mat4 \<Rightarrow> vec4" where
  "bottom_row (r0, r1, r2, r3) = r3"

fun mget4 :: "mat4 \<Rightarrow> nat \<Rightarrow> nat \<Rightarrow> real" where
  "mget4 (r0, r1, r2, r3) i j =
     (case (if i = 0 then r0 else if i = 1 then r1 else if i = 2 then r2 else r3) of
        (a, b, c, d) \<Rightarrow> if j = 0 then a else if j = 1 then b else if j = 2 then c else d)"

section \<open>The pose parameterisation\<close>

text \<open>\<^verbatim>\<open>vec2ss_matrix\<close> (lines 64 to 74): a zero matrix with six entries assigned.\<close>

definition vec2ss_matrix :: "vec3 \<Rightarrow> mat3" where
  "vec2ss_matrix vector =
     (let ss_matrix = zeros33;
          ss_matrix = mset33 ss_matrix 0 1 (- vget3 vector 2);
          ss_matrix = mset33 ss_matrix 0 2 (vget3 vector 1);
          ss_matrix = mset33 ss_matrix 1 0 (vget3 vector 2);
          ss_matrix = mset33 ss_matrix 1 2 (- vget3 vector 0);
          ss_matrix = mset33 ss_matrix 2 0 (- vget3 vector 1);
          ss_matrix = mset33 ss_matrix 2 1 (vget3 vector 0)
      in ss_matrix)"

text \<open>The module \<^verbatim>\<open>camera_transf\<close> (lines 77 to 92): its three parameters.\<close>

record camera_transf =
  w_param :: vec3
  v_param :: vec3
  theta_param :: real

definition exp_i_of :: "camera_transf \<Rightarrow> mat4" where
  "exp_i_of self =
     (let exp_i = zeros44;
          w_skewsym = vec2ss_matrix (w_param self);
          v_skewsym = vec2ss_matrix (v_param self);
          exp_i = set_block33 exp_i
            (madd3 (madd3 eye3 (mscale3 (sin (theta_param self)) w_skewsym))
               (mscale3 (1 - cos (theta_param self)) (matmul3 w_skewsym w_skewsym)));
          exp_i = set_col3 exp_i
            (matvec3
               (madd3 (madd3 (mscale3 (theta_param self) eye3)
                         (mscale3 (1 - cos (theta_param self)) w_skewsym))
                  (mscale3 (theta_param self - sin (theta_param self))
                     (matmul3 w_skewsym w_skewsym)))
               (v_param self));
          exp_i = set_33 exp_i 1
      in exp_i)"

definition forward :: "camera_transf \<Rightarrow> mat4 \<Rightarrow> mat4" where
  "forward self x = (let exp_i = exp_i_of self; T_i = matmul4 exp_i x in T_i)"

text \<open>The cross product, for stating what the skew-symmetric matrix of a vector is.\<close>

fun cross3 :: "vec3 \<Rightarrow> vec3 \<Rightarrow> vec3" where
  "cross3 (a, b, c) (x, y, z) = (b * z - c * y, c * x - a * z, a * y - b * x)"

section \<open>Diagnostics\<close>

text \<open>The per-axis error of lines 302 to 304, written three times in the source with
  the same shape: \<^verbatim>\<open>abs(r - c) if abs(r - c) < 300 else abs(abs(r - c) - 360)\<close>.\<close>

definition angle_error :: "real \<Rightarrow> real \<Rightarrow> real" where
  "angle_error ref cur =
     (if \<bar>ref - cur\<bar> < 300 then \<bar>ref - cur\<bar> else \<bar>\<bar>ref - cur\<bar> - 360\<bar>)"

text \<open>\<^verbatim>\<open>np.arctan2\<close> on reals (signed zeros are not distinguished), and the
  decomposition of a pose into three angles in degrees and a translation norm
  (lines 177 to 180 for the reference pose, lines 296 to 299 for the current one).\<close>

definition arctan2 :: "real \<Rightarrow> real \<Rightarrow> real" where
  "arctan2 y x =
     (if 0 < x then arctan (y / x)
      else if x < 0 then (if 0 \<le> y then arctan (y / x) + pi else arctan (y / x) - pi)
      else if 0 < y then pi / 2
      else if y < 0 then - pi / 2
      else 0)"

definition pose_angles :: "mat4 \<Rightarrow> real \<times> real \<times> real \<times> real" where
  "pose_angles m =
     (let phi = arctan2 (mget4 m 1 0) (mget4 m 0 0) * 180 / pi;
          theta = arctan2 (- mget4 m 2 0) (sqrt ((mget4 m 2 1)\<^sup>2 + (mget4 m 2 2)\<^sup>2)) * 180 / pi;
          psi = arctan2 (mget4 m 2 1) (mget4 m 2 2) * 180 / pi;
          translation = sqrt ((mget4 m 0 3)\<^sup>2 + (mget4 m 1 3)\<^sup>2 + (mget4 m 2 3)\<^sup>2)
      in (phi, theta, psi, translation))"

text \<open>Lines 302 to 306: the rotation error sums the three per-axis errors.\<close>

definition pose_errors :: "real \<times> real \<times> real \<times> real \<Rightarrow> mat4 \<Rightarrow> real \<times> real" where
  "pose_errors refs pose_dummy =
     (case refs of (phi_ref, theta_ref, psi_ref, translation_ref) \<Rightarrow>
      (case pose_angles pose_dummy of (phi, theta, psi, translation) \<Rightarrow>
         (let phi_error = angle_error phi_ref phi;
              theta_error = angle_error theta_ref theta;
              psi_error = angle_error psi_ref psi;
              rot_error = phi_error + theta_error + psi_error;
              translation_error = \<bar>translation_ref - translation\<bar>
          in (rot_error, translation_error))))"

section \<open>Python values, errors and the collaborators\<close>

datatype py_error = IndexError | ValueError | TypeError | UnboundLocalError

type_synonym pix = "int \<times> int"
type_synonym rgb = "real \<times> real \<times> real"
type_synonym image = "rgb list list"
type_synonym image8 = "(8 word \<times> 8 word \<times> 8 word) list list"
type_synonym mask = "bool list list"

text \<open>A pixel coordinate is a pair \<open>(x, y)\<close>, a row of the source's \<open>N \<times> 2\<close> integer
  arrays.  An image is the list of its rows.  An array of coordinates built by
  \<^verbatim>\<open>np.array([list(p) for p in s])\<close> has shape \<open>(n, 2)\<close> when \<open>s\<close> has \<open>n > 0\<close> elements
  and shape \<open>(0,)\<close> when \<open>s\<close> is empty: the empty list stands for that one-dimensional
  array, and the places where NumPy refuses it are written out below.\<close>

datatype pyval = PInt int | PReal real | PTensor tfloat

text \<open>What a call does to the world outside its return value, in order: what it
  prints, and which calls it makes to the random generators, the renderer and the
  optimizer.\<close>

datatype event =
    Ev_print string "pyval list"
  | Ev_noise string
  | Ev_normal
  | Ev_choice nat nat
  | Ev_render "pix list" mat4
  | Ev_step nat tfloat real

record 'r world =
  rng :: 'r
  trace :: "event list"

text \<open>The collaborators the source calls and this repository does not define:
  the renderer (\<^verbatim>\<open>renderer.hwf\<close>, \<^verbatim>\<open>renderer.get_img_from_pix(batch, pose, HW=False,
  NeedDepth=True)\<close>, returning the colours and the pair of depth mean and depth variance);
  OpenCV (grey-scale conversion with SIFT detection, which yields the keypoints'
  \<^verbatim>\<open>pt\<close>; the pixelwise colour conversions; \<^verbatim>\<open>cv2.dilate\<close> with a square kernel of
  ones of the given size and the given number of iterations);
  \<^verbatim>\<open>skimage.util.random_noise\<close> with its mode and its one parameter;
  \<^verbatim>\<open>np.random.choice(a, size, replace=False)\<close> on a population it accepts;
  \<^verbatim>\<open>torch.normal(mean, std, size)\<close> for the sizes \<open>(3,)\<close> and \<open>()\<close>;
  and Adam, with \<^verbatim>\<open>loss.backward(); optimizer.step()\<close> as one transition that sees the
  learning rate, the parameters, the inputs of the loss and the loss.  The random
  generators of NumPy and PyTorch are one state of type \<open>'r\<close>.\<close>

record ('r, 'o) collaborators =
  hwf :: "nat \<times> nat \<times> real"
  get_img_from_pix ::
    "pix list \<Rightarrow> mat4 \<Rightarrow> (tfloat \<times> tfloat \<times> tfloat) list \<times> tfloat list \<times> tfloat list"
  sift_detect :: "image8 \<Rightarrow> (real \<times> real) list"
  cvt_RGB2HSV :: "rgb \<Rightarrow> rgb"
  cvt_HSV2RGB :: "rgb \<Rightarrow> rgb"
  cv_dilate :: "mask \<Rightarrow> nat \<Rightarrow> nat \<Rightarrow> mask"
  random_noise :: "string \<Rightarrow> real option \<Rightarrow> image \<Rightarrow> 'r \<Rightarrow> image \<times> 'r"
  random_choice :: "nat \<Rightarrow> nat \<Rightarrow> 'r \<Rightarrow> nat list \<times> 'r"
  torch_normal3 :: "real \<Rightarrow> real \<Rightarrow> 'r \<Rightarrow> vec3 \<times> 'r"
  torch_normal1 :: "real \<Rightarrow> real \<Rightarrow> 'r \<Rightarrow> real \<times> 'r"
  Adam :: "real \<Rightarrow> 'o"
  backward_step ::
    "'o \<Rightarrow> real \<Rightarrow> camera_transf \<Rightarrow> mat4 \<times> pix list \<times> rgb list \<times> tfloat list \<Rightarrow> tfloat
       \<Rightarrow> camera_transf \<times> 'o"

section \<open>The estimator\<close>

text \<open>Module constants: \<^verbatim>\<open>N = 1\<close> (the resample interval) and \<^verbatim>\<open>l = 1\<close> (the weight
  of the colour loss).  \<^verbatim>\<open>TEST = False\<close> is never reassigned, so the branch of lines
  224 to 271 is dead and only the branch of lines 273 to 278 is modelled.\<close>

definition N_const :: nat where
  "N_const = 1"

definition l_const :: tfloat where
  "l_const = Fin 1"

record Estimator =
  batch_size :: nat
  kernel_size :: nat
  dil_iter :: nat
  lrate :: real
  sampling_strategy :: string
  noise :: "string option"
  sigma :: real
  amount :: real
  delta_brightness :: real
  iter :: int
  self_W :: nat
  self_H :: nat
  focal :: real
  coords :: "pix list list"
  pose_prior :: "mat4 option"

text \<open>Lines 111 to 114: \<^verbatim>\<open>np.meshgrid\<close> of \<open>0..W-1\<close> and \<open>0..H-1\<close>, stacked on the last
  axis: an array of shape \<open>(H, W, 2)\<close> whose entry \<open>[i][j]\<close> is \<open>(j, i)\<close>.\<close>

definition meshgrid :: "nat \<Rightarrow> nat \<Rightarrow> pix list list" where
  "meshgrid Wd Ht = map (\<lambda>i. map (\<lambda>j. (int j, int i)) [0..<Wd]) [0..<Ht]"

text \<open>\<^verbatim>\<open>Estimator.__init__\<close> (lines 95 to 114), with its defaults left to the caller.
  The attribute \<^verbatim>\<open>pose_prior\<close> does not exist yet.\<close>

definition Estimator_init ::
  "('r, 'o) collaborators \<Rightarrow> int \<Rightarrow> nat \<Rightarrow> string \<Rightarrow> nat \<Rightarrow> nat \<Rightarrow> real \<Rightarrow> string option \<Rightarrow>
     real \<Rightarrow> real \<Rightarrow> real \<Rightarrow> Estimator" where
  "Estimator_init renderer N_iter batch_size' sampling_strategy' dil_iter' kernel_size' lrate'
       noise' sigma' amount' delta_brightness' =
     (case hwf renderer of (Wd, Ht, focal') \<Rightarrow>
        \<lparr>batch_size = batch_size', kernel_size = kernel_size', dil_iter = dil_iter',
         lrate = lrate', sampling_strategy = sampling_strategy', noise = noise',
         sigma = sigma', amount = amount', delta_brightness = delta_brightness',
         iter = N_iter, self_W = Wd, self_H = Ht, focal = focal',
         coords = meshgrid Wd Ht, pose_prior = None\<rparr>)"

subsection \<open>Preprocessing of the observed image\<close>

text \<open>\<^verbatim>\<open>(np.array(obs_img) / 255.).astype(np.float32)\<close>, lines 118 and 122.\<close>

definition div255 :: "image \<Rightarrow> image" where
  "div255 obs_img = map (map (\<lambda>(r, g, b). (r / 255, g / 255, b / 255))) obs_img"

text \<open>Lines 125 and 126, and lines 128 to 130: two masked assignments on the value
  channel, the second one reading what the first one wrote.\<close>

definition map_value :: "(real \<Rightarrow> real) \<Rightarrow> image \<Rightarrow> image" where
  "map_value f img = map (map (\<lambda>(h, s, v). (h, s, f v))) img"

definition darken :: "real \<Rightarrow> image \<Rightarrow> image" where
  "darken delta img =
     (let img = map_value (\<lambda>v. if v < \<bar>delta\<bar> then 0 else v) img;
          img = map_value (\<lambda>v. if v \<ge> \<bar>delta\<bar> then v + delta else v) img
      in img)"

definition brighten :: "real \<Rightarrow> image \<Rightarrow> image" where
  "brighten delta img =
     (let lim = 1 - delta;
          img = map_value (\<lambda>v. if v > lim then 1 else v) img;
          img = map_value (\<lambda>v. if v \<le> lim then v + delta else v) img
      in img)"

text \<open>Lines 122 to 130: the second division, the conversion to hue, saturation and
  value, and the shift of the value channel.\<close>

definition shifted_hsv :: "('r, 'o) collaborators \<Rightarrow> Estimator \<Rightarrow> image \<Rightarrow> image" where
  "shifted_hsv E self obs_img =
     (let obs_img = div255 obs_img;
          obs_img = map (map (cvt_RGB2HSV E)) obs_img
      in if delta_brightness self < 0 then darken (delta_brightness self) obs_img
         else brighten (delta_brightness self) obs_img)"

text \<open>Lines 121 to 131.\<close>

definition change_brightness :: "('r, 'o) collaborators \<Rightarrow> Estimator \<Rightarrow> image \<Rightarrow> image" where
  "change_brightness E self obs_img =
     (if delta_brightness self \<noteq> 0 then
        (let obs_img = shifted_hsv E self obs_img;
             obs_img = map (map (cvt_HSV2RGB E)) obs_img
         in obs_img)
      else obs_img)"

text \<open>Lines 134 to 145.\<close>

definition call_random_noise ::
  "('r, 'o) collaborators \<Rightarrow> string \<Rightarrow> real option \<Rightarrow> image \<Rightarrow> 'r world \<Rightarrow> image \<times> 'r world" where
  "call_random_noise E mode par img wd =
     (case random_noise E mode par img (rng wd) of
        (img', r') \<Rightarrow> (img', wd\<lparr>rng := r', trace := trace wd @ [Ev_noise mode]\<rparr>))"

definition apply_noise ::
  "('r, 'o) collaborators \<Rightarrow> Estimator \<Rightarrow> image \<Rightarrow> 'r world \<Rightarrow> image \<times> 'r world" where
  "apply_noise E self obs_img wd =
     (if noise self = Some ''gaussian'' then
        call_random_noise E ''gaussian'' (Some ((sigma self)\<^sup>2)) obs_img wd
      else if noise self = Some ''s_and_p'' then
        call_random_noise E ''s&p'' (Some (amount self)) obs_img wd
      else if noise self = Some ''pepper'' then
        call_random_noise E ''pepper'' (Some (amount self)) obs_img wd
      else if noise self = Some ''salt'' then
        call_random_noise E ''salt'' (Some (amount self)) obs_img wd
      else if noise self = Some ''poisson'' then
        call_random_noise E ''poisson'' None obs_img wd
      else (obs_img, wd))"

text \<open>Lines 118 to 145: from the observed image as it is passed in to the image
  that supervises the loss.\<close>

definition preprocess ::
  "('r, 'o) collaborators \<Rightarrow> Estimator \<Rightarrow> image \<Rightarrow> 'r world \<Rightarrow> image \<times> 'r world" where
  "preprocess E self obs_img wd =
     (let obs_img = div255 obs_img;
          obs_img = change_brightness E self obs_img
      in apply_noise E self obs_img wd)"

text \<open>\<^verbatim>\<open>astype(int)\<close> truncates towards zero; \<^verbatim>\<open>astype(np.uint8)\<close> truncates and keeps
  the low eight bits.\<close>

definition astype_int :: "real \<Rightarrow> int" where
  "astype_int x = (if 0 \<le> x then \<lfloor>x\<rfloor> else \<lceil>x\<rceil>)"

definition astype_uint8 :: "real \<Rightarrow> 8 word" where
  "astype_uint8 x = word_of_int (astype_int x)"

text \<open>Line 147.\<close>

definition to_uint8_image :: "image \<Rightarrow> image8" where
  "to_uint8_image img =
     map (map (\<lambda>(r, g, b). (astype_uint8 (r * 255), astype_uint8 (g * 255), astype_uint8 (b * 255)))) img"

subsection \<open>Points of interest and the sampling pools\<close>

text \<open>\<^verbatim>\<open>find_POI\<close> (lines 23 to 34).  The order in which Python iterates over a set is
  not modelled: \<open>remdups\<close> yields the elements of the set in one fixed order.\<close>

definition find_POI :: "('r, 'o) collaborators \<Rightarrow> image8 \<Rightarrow> pix list" where
  "find_POI E img_rgb =
     (let xy = map (\<lambda>(x, y). (astype_int x, astype_int y)) (sift_detect E img_rgb);
          xy_set = remdups xy
      in xy_set)"

text \<open>An index into an axis of length \<open>n\<close>: negative indices count from the end.\<close>

definition py_index :: "nat \<Rightarrow> int \<Rightarrow> nat option" where
  "py_index n i =
     (if 0 \<le> i \<and> i < int n then Some (nat i)
      else if - int n \<le> i \<and> i < 0 then Some (nat (i + int n))
      else None)"

text \<open>Line 158, \<^verbatim>\<open>interest_regions[POI[:,1], POI[:,0]] = 1\<close>, one point after the other.\<close>

fun set_mask :: "mask \<Rightarrow> pix list \<Rightarrow> mask option" where
  "set_mask m [] = Some m"
| "set_mask m ((x, y) # ps) =
     (case py_index (length m) y of
        None \<Rightarrow> None
      | Some i \<Rightarrow>
          (case py_index (length (m ! i)) x of
             None \<Rightarrow> None
           | Some j \<Rightarrow> set_mask (m[i := (m ! i)[j := True]]) ps))"

text \<open>\<^verbatim>\<open>self.coords[interest_regions]\<close> with a boolean array of shape \<open>(H, W)\<close>: the
  coordinates where the mask holds, in row-major order.\<close>

definition bool_index :: "pix list list \<Rightarrow> mask \<Rightarrow> pix list" where
  "bool_index cs m = concat (map (\<lambda>(crow, mrow). map fst (filter snd (zip crow mrow))) (zip cs m))"

text \<open>Lines 155 to 162.  On an empty \<open>POI\<close> (shape \<open>(0,)\<close>) the index \<^verbatim>\<open>POI[:,1]\<close> has
  too many indices.\<close>

definition make_interest_regions ::
  "('r, 'o) collaborators \<Rightarrow> Estimator \<Rightarrow> pix list \<Rightarrow> py_error + pix list" where
  "make_interest_regions E self POI =
     (let interest_regions = replicate (self_H self) (replicate (self_W self) False)
      in if POI = [] then Inl IndexError
         else (case set_mask interest_regions POI of
                 None \<Rightarrow> Inl IndexError
               | Some interest_regions \<Rightarrow>
                   (let I = dil_iter self;
                        interest_regions = cv_dilate E interest_regions (kernel_size self) I
                    in Inr (bool_index (coords self) interest_regions))))"

text \<open>Lines 168 and 169: the grid minus the points of interest, as sets of tuples.\<close>

definition make_not_POI :: "pix list \<Rightarrow> pix list \<Rightarrow> pix list" where
  "make_not_POI coords' POI = filter (\<lambda>point. point \<notin> set POI) (remdups coords')"

subsection \<open>The optimisation loop\<close>

text \<open>\<^verbatim>\<open>np.random.choice(a, size=sz, replace=False)\<close> on an integer population: NumPy
  raises \<^verbatim>\<open>ValueError\<close> when the sample is larger than the population (which covers
  an empty population with a sample that is not), before it draws anything.\<close>

definition np_random_choice ::
  "('r, 'o) collaborators \<Rightarrow> nat \<Rightarrow> nat \<Rightarrow> 'r world \<Rightarrow> (py_error + nat list) \<times> 'r world" where
  "np_random_choice E a sz wd =
     (if a < sz then (Inl ValueError, wd)
      else (case random_choice E a sz (rng wd) of
              (rand_inds, r') \<Rightarrow>
                (Inr rand_inds, wd\<lparr>rng := r', trace := trace wd @ [Ev_choice a sz]\<rparr>)))"

text \<open>The idiom of lines 187 and 188 (and 192, 197, 201):
  \<^verbatim>\<open>rand_inds = np.random.choice(pool.shape[0], size=sz, replace=False)\<close>, then
  \<^verbatim>\<open>pool[rand_inds]\<close>.\<close>

definition draw_rows ::
  "('r, 'o) collaborators \<Rightarrow> pix list \<Rightarrow> nat \<Rightarrow> 'r world \<Rightarrow> (py_error + pix list) \<times> 'r world" where
  "draw_rows E pool sz wd =
     (case np_random_choice E (length pool) sz wd of
        (Inl e, wd') \<Rightarrow> (Inl e, wd')
      | (Inr rand_inds, wd') \<Rightarrow> (Inr (map (\<lambda>i. pool ! i) rand_inds), wd'))"

text \<open>What is fixed before the loop starts, and the variables the loop assigns.  In a
  branch where Python leaves \<^verbatim>\<open>POI\<close>, \<^verbatim>\<open>not_POI\<close> or \<^verbatim>\<open>interest_regions\<close> unbound the
  field holds \<open>[]\<close> and is never read.\<close>

record frame =
  start_pose :: mat4
  obs_img_noised :: image
  obs_img_depth :: "tfloat list list option"
  POI :: "pix list"
  interest_regions :: "pix list"
  not_POI :: "pix list"
  coords_flat :: "pix list"
  refs :: "real \<times> real \<times> real \<times> real"

record 'o locals =
  cam_transf :: camera_transf
  optimizer :: 'o
  lr :: real
  batch :: "pix list option"
  pose :: "mat4 option"

text \<open>A statement either falls through to the next one or executes \<^verbatim>\<open>return\<close>
  (which, at line 206, returns \<^verbatim>\<open>None\<close>).\<close>

datatype 'a flow = Next 'a | Return

text \<open>Lines 186 to 206.  Under \<^verbatim>\<open>interest_points\<close> with an empty \<open>POI\<close> (shape
  \<open>(0,)\<close>): when \<open>batch_size\<close> is 0 the batch \<^verbatim>\<open>POI[rand_inds]\<close> is one-dimensional and
  \<^verbatim>\<open>batch[:, 1]\<close> at line 208 has too many indices; otherwise the assignment
  \<^verbatim>\<open>batch[:0] = POI\<close> of line 196 cannot broadcast shape \<open>(0,)\<close> into \<open>(0, 2)\<close>.
  The batch size is a natural number, and \<^verbatim>\<open>np.int\<close> at line 195 is the alias of
  \<^verbatim>\<open>int\<close> that the NumPy releases of the source's time provide.\<close>

definition resample ::
  "('r, 'o) collaborators \<Rightarrow> Estimator \<Rightarrow> frame \<Rightarrow> 'r world \<Rightarrow>
     (py_error + pix list flow) \<times> 'r world" where
  "resample E self fr wd =
     (if sampling_strategy self = ''random'' then
        (case draw_rows E (coords_flat fr) (batch_size self) wd of
           (Inl e, wd') \<Rightarrow> (Inl e, wd')
         | (Inr b, wd') \<Rightarrow> (Inr (Next b), wd'))
      else if sampling_strategy self = ''interest_points'' then
        (if length (POI fr) \<ge> batch_size self then
           (case draw_rows E (POI fr) (batch_size self) wd of
              (Inl e, wd') \<Rightarrow> (Inl e, wd')
            | (Inr b, wd') \<Rightarrow>
                (if POI fr = [] then (Inl IndexError, wd') else (Inr (Next b), wd')))
         else if POI fr = [] then (Inl ValueError, wd)
         else
           (case draw_rows E (not_POI fr) (batch_size self - length (POI fr)) wd of
              (Inl e, wd') \<Rightarrow> (Inl e, wd')
            | (Inr rest, wd') \<Rightarrow> (Inr (Next (POI fr @ rest)), wd')))
      else if sampling_strategy self = ''interest_regions'' then
        (case draw_rows E (interest_regions fr) (batch_size self) wd of
           (Inl e, wd') \<Rightarrow> (Inl e, wd')
         | (Inr b, wd') \<Rightarrow> (Inr (Next b), wd'))
      else (Inr Return, wd\<lparr>trace := trace wd @ [Ev_print ''Unknown sampling strategy'' []]\<rparr>))"

text \<open>\<^verbatim>\<open>img[batch[:, 1], batch[:, 0]]\<close>: row \<open>y\<close>, column \<open>x\<close>; \<^verbatim>\<open>IndexError\<close> (here
  \<open>None\<close>) when a coordinate is outside the array.\<close>

definition gather :: "'a list list \<Rightarrow> pix list \<Rightarrow> 'a list option" where
  "gather img b =
     those (map (\<lambda>(x, y).
        (case py_index (length img) y of
           None \<Rightarrow> None
         | Some i \<Rightarrow>
             (case py_index (length (img ! i)) x of
                None \<Rightarrow> None
              | Some j \<Rightarrow> Some (img ! i ! j)))) b)"

definition flat3 :: "('a \<times> 'a \<times> 'a) list \<Rightarrow> 'a list" where
  "flat3 xs = concat (map (\<lambda>(a, b, c). [a, b, c]) xs)"

text \<open>Lines 36 and 38.  The renderer answers with one colour and one depth per
  coordinate of the batch, so the tensors have equal shapes.\<close>

definition img2mse :: "tfloat list \<Rightarrow> tfloat list \<Rightarrow> tfloat" where
  "img2mse x y = torch_mean (map (\<lambda>(a, b). tmul (tsub a b) (tsub a b)) (zip x y))"

definition depth2mse :: "tfloat list \<Rightarrow> tfloat list \<Rightarrow> tfloat list \<Rightarrow> tfloat" where
  "depth2mse x y z = torch_mean (map (\<lambda>(a, b). tmul (tsub a b) (tsub a b)) (zip x y))"

text \<open>Lines 289 to 309: the report, printed at \<open>k = 0\<close> and whenever \<open>k + 1\<close> is a
  multiple of 20.\<close>

definition report ::
  "nat \<Rightarrow> tfloat \<Rightarrow> real \<times> real \<times> real \<times> real \<Rightarrow> mat4 \<Rightarrow> 'r world \<Rightarrow> 'r world" where
  "report k loss rf pose_dummy wd =
     (case pose_errors rf pose_dummy of (rot_error, translation_error) \<Rightarrow>
        wd\<lparr>trace := trace wd @
          [Ev_print ''Step: '' [PInt (int k)],
           Ev_print ''Loss: '' [PTensor loss],
           Ev_print ''Rotation error: '' [PReal rot_error],
           Ev_print ''Translation error: '' [PReal translation_error],
           Ev_print ''-----------------------------------'' []]\<rparr>)"

text \<open>Lines 208 to 212: the supervision targets at the coordinates of the batch.
  Without a depth map (\<^verbatim>\<open>obs_img_depth=None\<close>) line 211 subscripts \<^verbatim>\<open>None\<close>.\<close>

definition targets :: "frame \<Rightarrow> pix list \<Rightarrow> py_error + rgb list \<times> tfloat list" where
  "targets fr b =
     (case gather (obs_img_noised fr) b of
        None \<Rightarrow> Inl IndexError
      | Some target_s \<Rightarrow>
          (case obs_img_depth fr of
             None \<Rightarrow> Inl TypeError
           | Some depth_img \<Rightarrow>
               (case gather depth_img b of
                  None \<Rightarrow> Inl IndexError
                | Some depth_s \<Rightarrow> Inr (target_s, depth_s))))"

text \<open>Lines 216 to 219 and 274 to 278: the renderer is queried at the batch and the
  candidate pose, and the loss is \<^verbatim>\<open>l*loss_rgb + loss_depth\<close>.\<close>

definition loss_of ::
  "('r, 'o) collaborators \<Rightarrow> pix list \<Rightarrow> mat4 \<Rightarrow> rgb list \<Rightarrow> tfloat list \<Rightarrow> tfloat" where
  "loss_of E b pose' target_s depth_s =
     (case get_img_from_pix E b pose' of (rgb', depth_val, depth_var) \<Rightarrow>
        (let loss_rgb = img2mse (flat3 rgb') (map Fin (flat3 target_s));
             loss_depth = depth2mse depth_val depth_s depth_var
         in tadd (tmul l_const loss_rgb) loss_depth))"

text \<open>Lines 208 to 309, for the batch in force: targets, candidate pose, rendering and
  loss, \<^verbatim>\<open>loss.backward(); optimizer.step()\<close>, the new learning rate, the report.\<close>

definition iteration_body ::
  "('r, 'o) collaborators \<Rightarrow> Estimator \<Rightarrow> frame \<Rightarrow> nat \<Rightarrow> 'o locals \<Rightarrow> 'r world \<Rightarrow>
     (py_error + 'o locals flow) \<times> 'r world" where
  "iteration_body E self fr k loc wd =
     (case batch loc of
        None \<Rightarrow> (Inl UnboundLocalError, wd)
      | Some b \<Rightarrow>
     (case targets fr b of
        Inl e \<Rightarrow> (Inl e, wd)
      | Inr (target_s, depth_s) \<Rightarrow>
     (let pose' = forward (cam_transf loc) (start_pose fr);
          loss = loss_of E b pose' target_s depth_s;
          wd = wd\<lparr>trace := trace wd @ [Ev_render b pose']\<rparr>
      in case backward_step E (optimizer loc) (lr loc) (cam_transf loc)
                (start_pose fr, b, target_s, depth_s) loss of (cam', opt') \<Rightarrow>
     (let wd = wd\<lparr>trace := trace wd @ [Ev_step k loss (lr loc)]\<rparr>;
          new_lrate = lrate self * (0.8 powr ((real k + 1) / 100));
          wd = (if (k + 1) mod 20 = 0 \<or> k = 0 then report k loss (refs fr) pose' wd else wd)
      in (Inr (Next (loc\<lparr>cam_transf := cam', optimizer := opt', lr := new_lrate,
                          pose := Some pose'\<rparr>)), wd)))))"

text \<open>One pass through the body of the \<^verbatim>\<open>for\<close> loop (lines 184 to 309).\<close>

definition iteration ::
  "('r, 'o) collaborators \<Rightarrow> Estimator \<Rightarrow> frame \<Rightarrow> nat \<Rightarrow> 'o locals \<Rightarrow> 'r world \<Rightarrow>
     (py_error + 'o locals flow) \<times> 'r world" where
  "iteration E self fr k loc wd =
     (if k mod N_const = 0 then
        (case resample E self fr wd of
           (Inl e, wd') \<Rightarrow> (Inl e, wd')
         | (Inr Return, wd') \<Rightarrow> (Inr Return, wd')
         | (Inr (Next b), wd') \<Rightarrow> iteration_body E self fr k (loc\<lparr>batch := Some b\<rparr>) wd')
      else iteration_body E self fr k loc wd)"

text \<open>\<^verbatim>\<open>for k in range(self.iter)\<close>: \<open>n\<close> passes are left and the next index is \<open>k\<close>.\<close>

fun optimization_loop ::
  "('r, 'o) collaborators \<Rightarrow> Estimator \<Rightarrow> frame \<Rightarrow> nat \<Rightarrow> nat \<Rightarrow> 'o locals \<Rightarrow> 'r world \<Rightarrow>
     (py_error + 'o locals flow) \<times> 'r world" where
  "optimization_loop E self fr 0 k loc wd = (Inr (Next loc), wd)"
| "optimization_loop E self fr (Suc n) k loc wd =
     (case iteration E self fr k loc wd of
        (Inl e, wd') \<Rightarrow> (Inl e, wd')
      | (Inr Return, wd') \<Rightarrow> (Inr Return, wd')
      | (Inr (Next loc'), wd') \<Rightarrow> optimization_loop E self fr n (Suc k) loc' wd')"

text \<open>Line 173: \<^verbatim>\<open>camera_transf()\<close> draws its parameters (lines 80 to 82).\<close>

definition new_camera_transf ::
  "('r, 'o) collaborators \<Rightarrow> 'r world \<Rightarrow> camera_transf \<times> 'r world" where
  "new_camera_transf E wd =
     (case torch_normal3 E 0 (1 / 1000000) (rng wd) of (w', r1) \<Rightarrow>
      case torch_normal3 E 0 (1 / 1000000) r1 of (v', r2) \<Rightarrow>
      case torch_normal1 E 0 (1 / 1000000) r2 of (theta', r3) \<Rightarrow>
        (\<lparr>w_param = w', v_param = v', theta_param = theta'\<rparr>,
         wd\<lparr>rng := r3, trace := trace wd @ [Ev_normal, Ev_normal, Ev_normal]\<rparr>))"

text \<open>Lines 118 to 180 of \<^verbatim>\<open>Estimator.estimate_pose\<close>: everything before the loop.\<close>

definition prepare ::
  "('r, 'o) collaborators \<Rightarrow> Estimator \<Rightarrow> mat4 \<Rightarrow> image \<Rightarrow> mat4 \<Rightarrow> tfloat list list option \<Rightarrow>
     'r world \<Rightarrow> (py_error + frame \<times> 'o locals) \<times> 'r world" where
  "prepare E self start_pose' obs_img obs_img_pose obs_img_depth' wd =
     (case preprocess E self obs_img wd of (obs_img_noised', wd) \<Rightarrow>
     (let obs_img_noised_POI = to_uint8_image obs_img_noised';
          POI' = (if sampling_strategy self = ''interest_regions''
                     \<or> sampling_strategy self = ''interest_points''
                  then find_POI E obs_img_noised_POI else [])
      in case (if sampling_strategy self = ''interest_regions''
               then make_interest_regions E self POI' else Inr []) of
           Inl e \<Rightarrow> (Inl e, wd)
         | Inr interest_regions' \<Rightarrow>
     (let coords' = concat (coords self);
          not_POI' = (if sampling_strategy self = ''interest_points''
                      then make_not_POI coords' POI' else [])
      in case new_camera_transf E wd of (cam_transf', wd) \<Rightarrow>
     (let optimizer' = Adam E (lrate self);
          fr = \<lparr>start_pose = start_pose', obs_img_noised = obs_img_noised',
                obs_img_depth = obs_img_depth', POI = POI',
                interest_regions = interest_regions', not_POI = not_POI',
                coords_flat = coords', refs = pose_angles obs_img_pose\<rparr>;
          loc = \<lparr>cam_transf = cam_transf', optimizer = optimizer', lr = lrate self,
                 batch = None, pose = None\<rparr>
      in (Inr (fr, loc), wd)))))"

text \<open>\<^verbatim>\<open>Estimator.estimate_pose\<close> (lines 116 to 323).  The result is the exception
  raised, or the value returned (\<open>None\<close> for the bare \<^verbatim>\<open>return\<close>); with it come the
  estimator and the world as the call leaves them.  After the loop, line 321 reads the
  variable \<^verbatim>\<open>pose\<close>, which only the body of the loop assigns.\<close>

definition estimate_pose ::
  "('r, 'o) collaborators \<Rightarrow> Estimator \<Rightarrow> mat4 \<Rightarrow> image \<Rightarrow> mat4 \<Rightarrow> tfloat list list option \<Rightarrow>
     'r world \<Rightarrow> (py_error + mat4 option) \<times> Estimator \<times> 'r world" where
  "estimate_pose E self start_pose' obs_img obs_img_pose obs_img_depth' wd =
     (case prepare E self start_pose' obs_img obs_img_pose obs_img_depth' wd of
        (Inl e, wd') \<Rightarrow> (Inl e, self, wd')
      | (Inr (fr, loc), wd') \<Rightarrow>
     (case optimization_loop E self fr (nat (iter self)) 0 loc wd' of
        (Inl e, wd'') \<Rightarrow> (Inl e, self, wd'')
      | (Inr Return, wd'') \<Rightarrow> (Inr None, self, wd'')
      | (Inr (Next loc'), wd'') \<Rightarrow>
          (case pose loc' of
             None \<Rightarrow> (Inl UnboundLocalError, self, wd'')
           | Some p \<Rightarrow> (Inr (Some p), self\<lparr>pose_prior := Some p\<rparr>, wd''))))"

section \<open>Contracts of the collaborators, and readings of a trace\<close>

text \<open>What NumPy promises of \<^verbatim>\<open>np.random.choice(a, size=sz, replace=False)\<close> when it
  accepts the call: \<open>sz\<close> indices below \<open>a\<close>, no index twice.\<close>

definition choice_contract :: "('r, 'o) collaborators \<Rightarrow> bool" where
  "choice_contract E =
     (\<forall>a sz r. sz \<le> a \<longrightarrow>
        length (fst (random_choice E a sz r)) = sz
        \<and> distinct (fst (random_choice E a sz r))
        \<and> list_all (\<lambda>i. i < a) (fst (random_choice E a sz r)))"

text \<open>OpenCV documents the value channel of \<^verbatim>\<open>COLOR_RGB2HSV\<close> as the largest of the
  three colour channels.\<close>

definition value_is_max :: "('r, 'o) collaborators \<Rightarrow> bool" where
  "value_is_max E = (\<forall>r g b. snd (snd (cvt_RGB2HSV E (r, g, b))) = max r (max g b))"

text \<open>It documents the saturation of \<^verbatim>\<open>COLOR_RGB2HSV\<close> as \<open>(V - min(R,G,B)) / V\<close> (0 where
  \<open>V = 0\<close>), which lies in \<open>[0, 1]\<close> for channels that are not negative; and
  \<^verbatim>\<open>COLOR_HSV2RGB\<close> gives every colour channel one of the values \<open>V\<close>, \<open>V(1 - S)\<close>,
  \<open>V(1 - S f)\<close> and \<open>V(1 - S(1 - f))\<close> with \<open>f\<close> in \<open>[0, 1]\<close>, which lie in \<open>[0, V]\<close> for a
  saturation in \<open>[0, 1]\<close> and a value that is not negative.\<close>

definition saturation_in_unit :: "('r, 'o) collaborators \<Rightarrow> bool" where
  "saturation_in_unit E =
     (\<forall>r g b. 0 \<le> r \<and> 0 \<le> g \<and> 0 \<le> b \<longrightarrow>
        0 \<le> fst (snd (cvt_RGB2HSV E (r, g, b))) \<and> fst (snd (cvt_RGB2HSV E (r, g, b))) \<le> 1)"

definition rgb_below_value :: "('r, 'o) collaborators \<Rightarrow> bool" where
  "rgb_below_value E =
     (\<forall>h s v. 0 \<le> s \<and> s \<le> 1 \<and> 0 \<le> v \<longrightarrow>
        (case cvt_HSV2RGB E (h, s, v) of (r, g, b) \<Rightarrow>
           0 \<le> r \<and> r \<le> v \<and> 0 \<le> g \<and> g \<le> v \<and> 0 \<le> b \<and> b \<le> v))"

definition in_grid :: "Estimator \<Rightarrow> pix \<Rightarrow> bool" where
  "in_grid self p = (0 \<le> fst p \<and> fst p < int (self_W self) \<and> 0 \<le> snd p \<and> snd p < int (self_H self))"

definition channels_within :: "real \<Rightarrow> real \<Rightarrow> image \<Rightarrow> bool" where
  "channels_within lo hi img =
     list_all (list_all (\<lambda>(r, g, b). lo \<le> r \<and> r \<le> hi \<and> lo \<le> g \<and> g \<le> hi \<and> lo \<le> b \<and> b \<le> hi)) img"

definition values_of :: "image \<Rightarrow> real list" where
  "values_of img = concat (map (map (\<lambda>(h, s, v). v)) img)"

text \<open>The batches a trace renders, the iterations in which it steps the optimizer with
  the loss it steps on, and whether it drew anything at random.\<close>

fun rendered :: "event list \<Rightarrow> pix list list" where
  "rendered [] = []"
| "rendered (Ev_render b p # tr) = b # rendered tr"
| "rendered (ev # tr) = rendered tr"

fun steps :: "event list \<Rightarrow> (nat \<times> tfloat) list" where
  "steps [] = []"
| "steps (Ev_step k loss lr' # tr) = (k, loss) # steps tr"
| "steps (ev # tr) = steps tr"

fun draws :: "event list \<Rightarrow> nat" where
  "draws [] = 0"
| "draws (Ev_noise m # tr) = Suc (draws tr)"
| "draws (Ev_normal # tr) = Suc (draws tr)"
| "draws (Ev_choice a sz # tr) = Suc (draws tr)"
| "draws (ev # tr) = draws tr"

text \<open>What holds of a batch, given the points of interest \<open>poi\<close> of the call: it has
  \<open>batch_size\<close> coordinates; each lies inside \<open>[0,W) \<times> [0,H)\<close> or, under
  \<open>interest_points\<close>, is one of the points of interest; under the random strategy no
  coordinate occurs twice.\<close>

definition batch_ok :: "Estimator \<Rightarrow> pix list \<Rightarrow> pix list \<Rightarrow> bool" where
  "batch_ok self poi b =
     (length b = batch_size self
      \<and> list_all (\<lambda>p. in_grid self p \<or> sampling_strategy self = ''interest_points'' \<and> p \<in> set poi) b
      \<and> (sampling_strategy self = ''random'' \<longrightarrow> distinct b))"

text \<open>The three strategies the loop knows (lines 186, 190 and 200).\<close>

definition recognised :: "string \<Rightarrow> bool" where
  "recognised s = (s = ''random'' \<or> s = ''interest_points'' \<or> s = ''interest_regions'')"

definition noisy :: "Estimator \<Rightarrow> bool" where
  "noisy self =
     (noise self = Some ''gaussian'' \<or> noise self = Some ''s_and_p'' \<or> noise self = Some ''pepper''
      \<or> noise self = Some ''salt'' \<or> noise self = Some ''poisson'')"

text \<open>The points of interest of a call: what \<^verbatim>\<open>find_POI\<close> returns at line 151 on the
  preprocessed image.\<close>

definition detected :: "('r, 'o) collaborators \<Rightarrow> Estimator \<Rightarrow> image \<Rightarrow> 'r world \<Rightarrow> pix list" where
  "detected E self obs_img wd = find_POI E (to_uint8_image (fst (preprocess E self obs_img wd)))"

text \<open>An estimator as \<^verbatim>\<open>__init__\<close> leaves it: its grid is the mesh of its width and
  height.  A frame whose pools, other than the points of interest themselves, lie inside
  the grid.\<close>

definition grid_ok :: "Estimator \<Rightarrow> bool" where
  "grid_ok self = (coords self = meshgrid (self_W self) (self_H self))"

definition frame_ok :: "Estimator \<Rightarrow> frame \<Rightarrow> bool" where
  "frame_ok self fr =
     (list_all (in_grid self) (coords_flat fr) \<and> distinct (coords_flat fr)
      \<and> list_all (in_grid self) (not_POI fr)
      \<and> list_all (in_grid self) (interest_regions fr))"

section \<open>Stub collaborators for concrete runs\<close>

text \<open>A deterministic stand-in for every collaborator, on a grid of two by two pixels:
  the detector reports the keypoints \<open>kps\<close>, the renderer paints black at depth \<open>d\<close>,
  noise leaves the image as it is, a sample is the first indices of the population,
  every normal draw is 0, and the optimizer leaves the parameters where they are.  The
  random state counts the draws, the optimizer state counts the steps.\<close>

definition stub :: "(real \<times> real) list \<Rightarrow> tfloat \<Rightarrow> (nat, nat) collaborators" where
  "stub kps d =
     \<lparr>hwf = (2, 2, 1),
      get_img_from_pix = (\<lambda>b p. (map (\<lambda>c. (Fin 0, Fin 0, Fin 0)) b, map (\<lambda>c. d) b, map (\<lambda>c. Fin 0) b)),
      sift_detect = (\<lambda>img. kps),
      cvt_RGB2HSV = (\<lambda>(r, g, b). (0, 0, max r (max g b))),
      cvt_HSV2RGB = (\<lambda>(h, s, v). (v, v, v)),
      cv_dilate = (\<lambda>m k i. m),
      random_noise = (\<lambda>mode par img r. (img, Suc r)),
      random_choice = (\<lambda>a sz r. (take sz [0..<a], Suc r)),
      torch_normal3 = (\<lambda>m s r. ((0, 0, 0), Suc r)),
      torch_normal1 = (\<lambda>m s r. (0, Suc r)),
      Adam = (\<lambda>lr0. 0),
      backward_step = (\<lambda>opt lr0 cam g loss. (cam, Suc opt))\<rparr>"

definition stub_estimator :: "int \<Rightarrow> nat \<Rightarrow> string \<Rightarrow> string option \<Rightarrow> real \<Rightarrow> Estimator" where
  "stub_estimator N_iter bs strategy noise' delta =
     Estimator_init (stub [] (Fin 0)) N_iter bs strategy 3 5 (1 / 100) noise' (1 / 100) (8 / 10) delta"

definition white2x2 :: image where
  "white2x2 = [[(255, 255, 255), (255, 255, 255)], [(255, 255, 255), (255, 255, 255)]]"

definition depth2x2 :: "tfloat list list" where
  "depth2x2 = [[Fin 1, Fin 1], [Fin 1, Fin 1]]"

text \<open>An observed image and a depth map of four by four pixels: larger than the grid of
  the stub renderer.\<close>

definition white4x4 :: image where
  "white4x4 = replicate 4 (replicate 4 (255, 255, 255))"

definition depth4x4 :: "tfloat list list" where
  "depth4x4 = replicate 4 (replicate 4 (Fin 1))"

definition world0 :: "nat world" where
  "world0 = \<lparr>rng = 0, trace = []\<rparr>"

text \<open>The frame of a stub call on the white image, under a strategy that needs no points
  of interest.\<close>

definition stub_frame :: frame where
  "stub_frame =
     \<lparr>start_pose = eye4,
      obs_img_noised = [[(1, 1, 1), (1, 1, 1)], [(1, 1, 1), (1, 1, 1)]],
      obs_img_depth = Some depth2x2, POI = [], interest_regions = [], not_POI = [],
      coords_flat = [(0, 0), (1, 0), (0, 1), (1, 1)], refs = pose_angles eye4\<rparr>"

section \<open>Lemmas about the phases of a call\<close>

subsection \<open>An unrecognised strategy, and the phase before the loop\<close>

lemma resample_unknown:
  "\<not> recognised (sampling_strategy self) \<Longrightarrow>
   resample E self fr wd =
     (Inr Return, wd\<lparr>trace := trace wd @ [Ev_print ''Unknown sampling strategy'' []]\<rparr>)"
  by (simp add: resample_def recognised_def)



lemma prepare_regions_fail:
  assumes "sampling_strategy self = ''interest_regions''"
    and "make_interest_regions E self (detected E self img wd) = Inl e"
  shows "prepare E self sp img rp dp wd = (Inl e, snd (preprocess E self img wd))"
  using assms by (simp add: prepare_def detected_def Let_def case_prod_beta)

lemma make_interest_regions_empty: "make_interest_regions E self [] = Inl IndexError"
  by (simp add: make_interest_regions_def)


lemma prepare_points:
  assumes "sampling_strategy self = ''interest_points''"
  shows "prepare E self sp img rp dp wd =
     (Inr (\<lparr>start_pose = sp, obs_img_noised = fst (preprocess E self img wd),
            obs_img_depth = dp, POI = detected E self img wd, interest_regions = [],
            not_POI = make_not_POI (concat (coords self)) (detected E self img wd),
            coords_flat = concat (coords self), refs = pose_angles rp\<rparr>,
           \<lparr>cam_transf = fst (new_camera_transf E (snd (preprocess E self img wd))),
            optimizer = Adam E (lrate self), lr = lrate self, batch = None, pose = None\<rparr>),
      snd (new_camera_transf E (snd (preprocess E self img wd))))"
  using assms by (simp add: prepare_def detected_def Let_def split: prod.splits)

lemma resample_points_empty:
  assumes "sampling_strategy self = ''interest_points''" "POI fr = []" "0 < batch_size self"
  shows "resample E self fr wd = (Inl ValueError, wd)"
  using assms by (simp add: resample_def)


subsection \<open>Readings of the trace\<close>

lemma steps_append: "steps (xs @ ys) = steps xs @ steps ys"
  by (induction xs rule: steps.induct) simp_all

lemma rendered_append: "rendered (xs @ ys) = rendered xs @ rendered ys"
  by (induction xs rule: rendered.induct) simp_all

lemma draws_append: "draws (xs @ ys) = draws xs + draws ys"
  by (induction xs rule: draws.induct) simp_all

lemma report_readings:
  "steps (trace (report k loss rf p wd)) = steps (trace wd)"
  "rendered (trace (report k loss rf p wd)) = rendered (trace wd)"
  "draws (trace (report k loss rf p wd)) = draws (trace wd)"
  "rng (report k loss rf p wd) = rng wd"
  by (simp_all add: report_def steps_append rendered_append draws_append split: prod.splits)

lemma iteration_body_Next:
  assumes "batch loc = Some b" and "targets fr b = Inr (target_s, depth_s)"
  shows "\<exists>wd'. iteration_body E self fr k loc wd =
       (Inr (Next (loc\<lparr>cam_transf := fst (backward_step E (optimizer loc) (lr loc) (cam_transf loc)
                                      (start_pose fr, b, target_s, depth_s)
                                      (loss_of E b (forward (cam_transf loc) (start_pose fr)) target_s depth_s)),
                      optimizer := snd (backward_step E (optimizer loc) (lr loc) (cam_transf loc)
                                      (start_pose fr, b, target_s, depth_s)
                                      (loss_of E b (forward (cam_transf loc) (start_pose fr)) target_s depth_s)),
                      lr := lrate self * (0.8 powr ((real k + 1) / 100)),
                      pose := Some (forward (cam_transf loc) (start_pose fr))\<rparr>)), wd')
     \<and> steps (trace wd') = steps (trace wd)
          @ [(k, loss_of E b (forward (cam_transf loc) (start_pose fr)) target_s depth_s)]
     \<and> rendered (trace wd') = rendered (trace wd) @ [b]
     \<and> draws (trace wd') = draws (trace wd)
     \<and> rng wd' = rng wd"
  using assms
  by (simp add: iteration_body_def Let_def case_prod_beta report_readings
      steps_append rendered_append draws_append)

lemma iteration_body_cases:
  "(\<exists>e. iteration_body E self fr k loc wd = (Inl e, wd))
   \<or> (\<exists>b target_s depth_s. batch loc = Some b \<and> targets fr b = Inr (target_s, depth_s))"
  by (cases "batch loc"; cases "targets fr (the (batch loc))")
     (auto simp: iteration_body_def)

subsection \<open>Drawing a batch\<close>

lemma draw_rows_Inl:
  "draw_rows E pool sz wd = (Inl e, wd') \<Longrightarrow> length pool < sz \<and> e = ValueError \<and> wd' = wd"
  by (auto simp: draw_rows_def np_random_choice_def split: if_splits prod.splits)

lemma draw_rows_Inr:
  assumes "draw_rows E pool sz wd = (Inr b, wd')"
  shows "sz \<le> length pool
     \<and> b = map (\<lambda>i. pool ! i) (fst (random_choice E (length pool) sz (rng wd)))
     \<and> wd' = wd\<lparr>rng := snd (random_choice E (length pool) sz (rng wd)),
                trace := trace wd @ [Ev_choice (length pool) sz]\<rparr>"
  using assms
  by (auto simp: draw_rows_def np_random_choice_def split: if_splits prod.splits)

lemma draw_rows_total:
  "sz \<le> length pool \<Longrightarrow> \<exists>b wd'. draw_rows E pool sz wd = (Inr b, wd')"
  by (simp add: draw_rows_def np_random_choice_def case_prod_beta)

lemma drawn_ok:
  assumes c: "choice_contract E" and le: "sz \<le> length pool"
    and b: "b = map (\<lambda>i. pool ! i) (fst (random_choice E (length pool) sz r))"
  shows "length b = sz" and "set b \<subseteq> set pool" and "distinct pool \<Longrightarrow> distinct b"
proof -
  let ?inds = "fst (random_choice E (length pool) sz r)"
  from c le have len: "length ?inds = sz" and d: "distinct ?inds"
    and lt: "list_all (\<lambda>i. i < length pool) ?inds"
    unfolding choice_contract_def by blast+
  from len b show "length b = sz" by simp
  from lt have in_range: "\<And>i. i \<in> set ?inds \<Longrightarrow> i < length pool"
    by (simp add: list_all_iff)
  then show "set b \<subseteq> set pool" unfolding b by auto
  assume dp: "distinct pool"
  have "inj_on (\<lambda>i. pool ! i) (set ?inds)"
    by (rule inj_onI) (use dp in_range in \<open>auto simp: nth_eq_iff_index_eq\<close>)
  with d show "distinct b" unfolding b by (simp add: distinct_map)
qed

lemma draw_rows_readings:
  assumes "draw_rows E pool sz wd = (r, wd')"
  shows "steps (trace wd') = steps (trace wd)" and "rendered (trace wd') = rendered (trace wd)"
  using assms
  by (auto simp: draw_rows_def np_random_choice_def steps_append rendered_append
      split: if_splits prod.splits)

lemma resample_readings:
  assumes "resample E self fr wd = (r, wd')"
  shows "steps (trace wd') = steps (trace wd)" and "rendered (trace wd') = rendered (trace wd)"
proof -
  have "steps (trace wd') = steps (trace wd) \<and> rendered (trace wd') = rendered (trace wd)"
    using assms
    by (auto simp: resample_def steps_append rendered_append
        split: if_splits prod.splits sum.splits dest: draw_rows_readings)
  then show "steps (trace wd') = steps (trace wd)" and "rendered (trace wd') = rendered (trace wd)"
    by simp_all
qed

lemma resample_batch_ok:
  assumes c: "choice_contract E" and f: "frame_ok self fr"
    and r: "resample E self fr wd = (Inr (Next b), wd')"
  shows "batch_ok self (POI fr) b"
proof -
  consider (rand) "sampling_strategy self = ''random''"
    | (pts) "sampling_strategy self = ''interest_points''"
    | (reg) "sampling_strategy self = ''interest_regions''"
    | (unk) "\<not> recognised (sampling_strategy self)"
    by (auto simp: recognised_def)
  then show ?thesis
  proof cases
    case rand
    with r obtain wd1 where d: "draw_rows E (coords_flat fr) (batch_size self) wd = (Inr b, wd1)"
      by (auto simp: resample_def split: prod.splits sum.splits)
    note i = draw_rows_Inr [OF d]
    from i have le: "batch_size self \<le> length (coords_flat fr)" by simp
    from i have b: "b = map (\<lambda>i. coords_flat fr ! i)
        (fst (random_choice E (length (coords_flat fr)) (batch_size self) (rng wd)))" by simp
    from f have g: "list_all (in_grid self) (coords_flat fr)" and dc: "distinct (coords_flat fr)"
      by (simp_all add: frame_ok_def)
    note k = drawn_ok [OF c le b]
    from k(1) k(2) k(3) [OF dc] g show ?thesis
      by (auto simp: batch_ok_def list_all_iff)
  next
    case reg
    with r obtain wd1 where d: "draw_rows E (interest_regions fr) (batch_size self) wd = (Inr b, wd1)"
      by (auto simp: resample_def split: prod.splits sum.splits)
    note i = draw_rows_Inr [OF d]
    from i have le: "batch_size self \<le> length (interest_regions fr)" by simp
    from i have b: "b = map (\<lambda>i. interest_regions fr ! i)
        (fst (random_choice E (length (interest_regions fr)) (batch_size self) (rng wd)))" by simp
    from f have g: "list_all (in_grid self) (interest_regions fr)"
      by (simp add: frame_ok_def)
    note k = drawn_ok(1,2) [OF c le b]
    from k g reg show ?thesis
      by (auto simp: batch_ok_def list_all_iff)
  next
    case pts
    from f have gn: "list_all (in_grid self) (not_POI fr)"
      by (simp add: frame_ok_def)
    show ?thesis
    proof (cases "batch_size self \<le> length (POI fr)")
      case True
      with r pts obtain wd1 where d: "draw_rows E (POI fr) (batch_size self) wd = (Inr b, wd1)"
        by (auto simp: resample_def split: prod.splits sum.splits if_splits)
      note i = draw_rows_Inr [OF d]
      from i have b: "b = map (\<lambda>i. POI fr ! i)
          (fst (random_choice E (length (POI fr)) (batch_size self) (rng wd)))" by simp
      note k = drawn_ok(1,2) [OF c True b]
      from k pts show ?thesis
        by (auto simp: batch_ok_def list_all_iff)
    next
      case False
      with r pts obtain rest wd1 where
        d: "draw_rows E (not_POI fr) (batch_size self - length (POI fr)) wd = (Inr rest, wd1)"
        and b: "b = POI fr @ rest"
        by (auto simp: resample_def split: prod.splits sum.splits if_splits)
      note i = draw_rows_Inr [OF d]
      from i have le: "batch_size self - length (POI fr) \<le> length (not_POI fr)" by simp
      from i have rest: "rest = map (\<lambda>i. not_POI fr ! i)
          (fst (random_choice E (length (not_POI fr)) (batch_size self - length (POI fr)) (rng wd)))"
        by simp
      note k = drawn_ok(1,2) [OF c le rest]
      from k gn pts False show ?thesis
        unfolding b by (auto simp: batch_ok_def list_all_iff)
    qed
  next
    case unk
    with r show ?thesis by (simp add: resample_unknown)
  qed
qed

lemma iteration_rendered:
  assumes c: "choice_contract E" and f: "frame_ok self fr"
    and inv: "list_all (batch_ok self (POI fr)) (rendered (trace wd))"
  shows "list_all (batch_ok self (POI fr)) (rendered (trace (snd (iteration E self fr k loc wd))))"
proof (cases "resample E self fr wd")
  case (Pair r wd1)
  note rd = resample_readings(2) [OF Pair]
  show ?thesis
  proof (cases r)
    case (Inl e)
    with Pair inv rd show ?thesis by (simp add: iteration_def N_const_def)
  next
    case (Inr fl)
    show ?thesis
    proof (cases fl)
      case Return
      with Pair Inr inv rd show ?thesis by (simp add: iteration_def N_const_def)
    next
      case (Next b)
      with Pair Inr have r: "resample E self fr wd = (Inr (Next b), wd1)" by simp
      have ok: "batch_ok self (POI fr) b" by (rule resample_batch_ok [OF c f r])
      have it: "iteration E self fr k loc wd = iteration_body E self fr k (loc\<lparr>batch := Some b\<rparr>) wd1"
        by (simp add: iteration_def N_const_def r)
      from iteration_body_cases [of E self fr k "loc\<lparr>batch := Some b\<rparr>" wd1]
      show ?thesis
      proof
        assume "\<exists>e. iteration_body E self fr k (loc\<lparr>batch := Some b\<rparr>) wd1 = (Inl e, wd1)"
        with it inv rd show ?thesis by auto
      next
        assume "\<exists>b' target_s depth_s. batch (loc\<lparr>batch := Some b\<rparr>) = Some b'
                  \<and> targets fr b' = Inr (target_s, depth_s)"
        then obtain target_s depth_s where t: "targets fr b = Inr (target_s, depth_s)" by auto
        have bb: "batch (loc\<lparr>batch := Some b\<rparr>) = Some b" by simp
        from iteration_body_Next [OF bb t, of E self k wd1] it inv rd ok
        show ?thesis by auto
      qed
    qed
  qed
qed

lemma iteration_Next:
  assumes "iteration E self fr k loc wd = (Inr (Next loc'), wd')"
  shows "map fst (steps (trace wd')) = map fst (steps (trace wd)) @ [k]
     \<and> (\<exists>b. batch loc' = Some b \<and> pose loc' = Some (forward (cam_transf loc) (start_pose fr)))"
proof -
  from assms obtain b wd1 where r: "resample E self fr wd = (Inr (Next b), wd1)"
    and it: "iteration_body E self fr k (loc\<lparr>batch := Some b\<rparr>) wd1 = (Inr (Next loc'), wd')"
    by (auto simp: iteration_def N_const_def split: prod.splits sum.splits flow.splits)
  note rd = resample_readings(1) [OF r]
  from iteration_body_cases [of E self fr k "loc\<lparr>batch := Some b\<rparr>" wd1] it
  obtain target_s depth_s where t: "targets fr b = Inr (target_s, depth_s)" by auto
  have bb: "batch (loc\<lparr>batch := Some b\<rparr>) = Some b" by simp
  from iteration_body_Next [OF bb t, of E self k wd1] it rd
  show ?thesis by auto
qed

lemma loop_rendered:
  assumes c: "choice_contract E" and f: "frame_ok self fr"
  shows "list_all (batch_ok self (POI fr)) (rendered (trace wd)) \<Longrightarrow>
     list_all (batch_ok self (POI fr)) (rendered (trace (snd (optimization_loop E self fr n k loc wd))))"
proof (induction n arbitrary: k loc wd)
  case 0
  then show ?case by simp
next
  case (Suc n)
  from iteration_rendered [OF c f Suc.prems, of k loc]
  have i: "list_all (batch_ok self (POI fr)) (rendered (trace (snd (iteration E self fr k loc wd))))" .
  show ?case
  proof (cases "iteration E self fr k loc wd")
    case (Pair r wd1)
    with i have i1: "list_all (batch_ok self (POI fr)) (rendered (trace wd1))" by simp
    show ?thesis
    proof (cases r)
      case (Inl e)
      with Pair i1 show ?thesis by simp
    next
      case (Inr fl)
      show ?thesis
      proof (cases fl)
        case Return
        with Pair Inr i1 show ?thesis by simp
      next
        case (Next loc1)
        with Pair Inr Suc.IH [OF i1, of "Suc k" loc1] show ?thesis by simp
      qed
    qed
  qed
qed

lemma loop_Next:
  "optimization_loop E self fr n k loc wd = (Inr (Next loc'), wd') \<Longrightarrow>
     map fst (steps (trace wd')) = map fst (steps (trace wd)) @ [k..<k + n]
     \<and> (0 < n \<longrightarrow> pose loc' \<noteq> None) \<and> (n = 0 \<longrightarrow> loc' = loc)"
proof (induction n arbitrary: k loc wd)
  case 0
  then show ?case by simp
next
  case (Suc n)
  from Suc.prems obtain loc1 wd1 where
    i: "iteration E self fr k loc wd = (Inr (Next loc1), wd1)"
    and l: "optimization_loop E self fr n (Suc k) loc1 wd1 = (Inr (Next loc'), wd')"
    by (auto split: prod.splits sum.splits flow.splits)
  note a = iteration_Next [OF i]
  note b = Suc.IH [OF l]
  have u: "[k..<k + Suc n] = k # [Suc k..<Suc k + n]"
    by (simp add: upt_rec)
  from a b have "map fst (steps (trace wd')) =
      (map fst (steps (trace wd)) @ [k]) @ [Suc k..<Suc k + n]"
    by simp
  then have s: "map fst (steps (trace wd')) = map fst (steps (trace wd)) @ [k..<k + Suc n]"
    by (simp only: u append_assoc append_Cons append_Nil)
  have p: "pose loc' \<noteq> None"
  proof (cases n)
    case 0
    with a b show ?thesis by auto
  next
    case (Suc m)
    with b show ?thesis by simp
  qed
  from s p show ?case by simp
qed

subsection \<open>The cached prior is never read\<close>

lemma preprocess_prior [simp]: "preprocess E (self\<lparr>pose_prior := q\<rparr>) = preprocess E self"
  by (intro ext) (simp add: preprocess_def change_brightness_def shifted_hsv_def apply_noise_def Let_def case_prod_beta cong: if_cong sum.case_cong option.case_cong flow.case_cong)

lemma prepare_prior [simp]: "prepare E (self\<lparr>pose_prior := q\<rparr>) = prepare E self"
  by (intro ext) (simp add: prepare_def make_interest_regions_def Let_def case_prod_beta cong: if_cong sum.case_cong option.case_cong flow.case_cong)

lemma resample_prior [simp]: "resample E (self\<lparr>pose_prior := q\<rparr>) = resample E self"
  by (intro ext) (simp add: resample_def Let_def case_prod_beta cong: if_cong sum.case_cong option.case_cong flow.case_cong)

lemma iteration_body_prior [simp]:
  "iteration_body E (self\<lparr>pose_prior := q\<rparr>) = iteration_body E self"
  by (intro ext) (simp add: iteration_body_def Let_def case_prod_beta cong: if_cong sum.case_cong option.case_cong flow.case_cong)

lemma iteration_prior [simp]: "iteration E (self\<lparr>pose_prior := q\<rparr>) = iteration E self"
  by (intro ext) (simp add: iteration_def Let_def case_prod_beta cong: if_cong sum.case_cong option.case_cong flow.case_cong)

lemma loop_prior [simp]:
  "optimization_loop E (self\<lparr>pose_prior := q\<rparr>) fr n k loc wd = optimization_loop E self fr n k loc wd"
  by (induction n arbitrary: k loc wd) (simp_all split: prod.splits sum.splits flow.splits)

lemma estimate_pose_self:
  "fst (snd (estimate_pose E self sp img rp dp wd)) =
     (case fst (estimate_pose E self sp img rp dp wd) of
        Inr (Some p) \<Rightarrow> self\<lparr>pose_prior := Some p\<rparr>
      | _ \<Rightarrow> self)"
  by (simp add: estimate_pose_def split: prod.splits sum.splits flow.splits option.splits)

lemma estimate_pose_prior:
  "fst (estimate_pose E (self\<lparr>pose_prior := q\<rparr>) sp img rp dp wd) = fst (estimate_pose E self sp img rp dp wd)
   \<and> snd (snd (estimate_pose E (self\<lparr>pose_prior := q\<rparr>) sp img rp dp wd)) = snd (snd (estimate_pose E self sp img rp dp wd))"
  by (simp add: estimate_pose_def split: prod.splits sum.splits flow.splits option.splits)

subsection \<open>The grid and the pools\<close>

lemma in_meshgrid:
  "p \<in> set (concat (meshgrid Wd Ht)) \<longleftrightarrow> (\<exists>i j. i < Ht \<and> j < Wd \<and> p = (int j, int i))"
  by (auto simp: meshgrid_def image_iff Bex_def)

lemma meshgrid_distinct: "distinct (concat (meshgrid Wd Ht))"
proof (induction Ht)
  case 0
  then show ?case by (simp add: meshgrid_def)
next
  case (Suc Ht)
  have row: "distinct (map (\<lambda>j. (int j, int Ht)) [0..<Wd])"
    by (simp add: distinct_map inj_on_def)
  have split: "concat (meshgrid Wd (Suc Ht)) =
      concat (meshgrid Wd Ht) @ map (\<lambda>j. (int j, int Ht)) [0..<Wd]"
    by (simp add: meshgrid_def)
  have disj: "set (concat (meshgrid Wd Ht)) \<inter> set (map (\<lambda>j. (int j, int Ht)) [0..<Wd]) = {}"
  proof -
    have "False" if a: "p \<in> set (concat (meshgrid Wd Ht))"
      and b: "p \<in> set (map (\<lambda>j. (int j, int Ht)) [0..<Wd])" for p
    proof -
      from a obtain i j where "i < Ht" "p = (int j, int i)"
        unfolding in_meshgrid by blast
      moreover from b obtain j' where "p = (int j', int Ht)" by auto
      ultimately show False by simp
    qed
    then show ?thesis by blast
  qed
  from Suc row disj show ?case
    unfolding split by simp
qed

lemma meshgrid_in_grid:
  assumes g: "grid_ok self"
  shows "list_all (in_grid self) (concat (coords self))"
proof -
  have "in_grid self p" if "p \<in> set (concat (meshgrid (self_W self) (self_H self)))" for p
  proof -
    from that obtain i j where "i < self_H self" "j < self_W self" "p = (int j, int i)"
      unfolding in_meshgrid by blast
    then show ?thesis by (simp add: in_grid_def)
  qed
  with g show ?thesis
    unfolding grid_ok_def list_all_iff by simp
qed

lemma find_POI_distinct: "distinct (find_POI E img)"
  by (simp add: find_POI_def)

lemma make_not_POI_set: "set (make_not_POI cs P) = set cs - set P"
  by (auto simp: make_not_POI_def)

lemma make_not_POI_distinct: "distinct (make_not_POI cs P)"
  by (simp add: make_not_POI_def)

lemma bool_index_subset: "set (bool_index cs m) \<subseteq> set (concat cs)"
proof
  fix p
  assume "p \<in> set (bool_index cs m)"
  then obtain crow mrow where z: "(crow, mrow) \<in> set (zip cs m)"
    and p: "p \<in> set (map fst (filter snd (zip crow mrow)))"
    unfolding bool_index_def by auto
  from z have "crow \<in> set cs" by (rule set_zip_leftD)
  moreover from p have "p \<in> set crow" by (auto dest: set_zip_leftD)
  ultimately show "p \<in> set (concat cs)" by auto
qed

lemma make_interest_regions_subset:
  "make_interest_regions E self P = Inr ir \<Longrightarrow> set ir \<subseteq> set (concat (coords self))"
  using bool_index_subset
  by (auto simp: make_interest_regions_def Let_def split: if_splits option.splits)

lemma prepare_Inr:
  assumes "prepare E self sp img rp dp wd = (Inr (fr, loc), wd')"
  shows "coords_flat fr = concat (coords self)"
    and "sampling_strategy self = ''interest_points'' \<Longrightarrow>
           POI fr = detected E self img wd
           \<and> not_POI fr = make_not_POI (concat (coords self)) (detected E self img wd)"
    and "set (interest_regions fr) \<subseteq> set (concat (coords self))"
    and "pose loc = None"
    and "wd' = snd (new_camera_transf E (snd (preprocess E self img wd)))"
    and "obs_img_noised fr = fst (preprocess E self img wd)"
proof -
  have "coords_flat fr = concat (coords self)
    \<and> (sampling_strategy self = ''interest_points'' \<longrightarrow>
           POI fr = detected E self img wd
           \<and> not_POI fr = make_not_POI (concat (coords self)) (detected E self img wd))
    \<and> set (interest_regions fr) \<subseteq> set (concat (coords self))
    \<and> pose loc = None
    \<and> wd' = snd (new_camera_transf E (snd (preprocess E self img wd)))
    \<and> obs_img_noised fr = fst (preprocess E self img wd)"
    using assms make_interest_regions_subset [of E self "detected E self img wd"]
    by (cases "sampling_strategy self = ''interest_regions''";
        cases "make_interest_regions E self (detected E self img wd)")
       (auto simp: prepare_def detected_def Let_def case_prod_beta)
  then show "coords_flat fr = concat (coords self)"
    and "sampling_strategy self = ''interest_points'' \<Longrightarrow>
           POI fr = detected E self img wd
           \<and> not_POI fr = make_not_POI (concat (coords self)) (detected E self img wd)"
    and "set (interest_regions fr) \<subseteq> set (concat (coords self))"
    and "pose loc = None"
    and "wd' = snd (new_camera_transf E (snd (preprocess E self img wd)))"
    and "obs_img_noised fr = fst (preprocess E self img wd)"
    by simp_all
qed

lemma prepare_not_POI:
  assumes "prepare E self sp img rp dp wd = (Inr (fr, loc), wd')"
  shows "set (not_POI fr) \<subseteq> set (concat (coords self))"
  using assms
  by (cases "sampling_strategy self = ''interest_regions''";
      cases "make_interest_regions E self (detected E self img wd)")
     (auto simp: prepare_def detected_def Let_def case_prod_beta make_not_POI_set split: if_splits)

lemma prepare_frame_ok:
  assumes g: "grid_ok self"
    and p: "prepare E self sp img rp dp wd = (Inr (fr, loc), wd')"
  shows "frame_ok self fr"
proof -
  note i = prepare_Inr [OF p]
  have cg: "list_all (in_grid self) (concat (coords self))" by (rule meshgrid_in_grid [OF g])
  have cd: "distinct (concat (coords self))" using g by (simp add: grid_ok_def meshgrid_distinct)
  have ir: "list_all (in_grid self) (interest_regions fr)"
    using i(3) cg by (auto simp: list_all_iff)
  have np: "list_all (in_grid self) (not_POI fr)"
    using prepare_not_POI [OF p] cg by (auto simp: list_all_iff)
  from cg cd ir np i(1) show ?thesis by (simp add: frame_ok_def)
qed

lemma batch_ok_points:
  assumes "sampling_strategy self = ''interest_points'' \<Longrightarrow> poi = poi'"
  shows "batch_ok self poi b = batch_ok self poi' b"
  using assms by (cases "sampling_strategy self = ''interest_points''") (auto simp: batch_ok_def)

lemma batch_ok_in_grid:
  assumes "batch_ok self poi b" and "list_all (in_grid self) poi"
  shows "list_all (in_grid self) b"
  using assms by (auto simp: batch_ok_def list_all_iff)

lemma call_random_noise_readings:
  "steps (trace (snd (call_random_noise E m par img wd))) = steps (trace wd)"
  "rendered (trace (snd (call_random_noise E m par img wd))) = rendered (trace wd)"
  "draws (trace (snd (call_random_noise E m par img wd))) = Suc (draws (trace wd))"
  by (simp_all add: call_random_noise_def case_prod_beta steps_append rendered_append draws_append)

lemma preprocess_readings:
  "steps (trace (snd (preprocess E self img wd))) = steps (trace wd)"
  "rendered (trace (snd (preprocess E self img wd))) = rendered (trace wd)"
  "draws (trace (snd (preprocess E self img wd))) = draws (trace wd) + (if noisy self then 1 else 0)"
  by (auto simp add: preprocess_def apply_noise_def Let_def call_random_noise_readings noisy_def)

lemma new_camera_transf_readings:
  "steps (trace (snd (new_camera_transf E wd))) = steps (trace wd)"
  "rendered (trace (snd (new_camera_transf E wd))) = rendered (trace wd)"
  "draws (trace (snd (new_camera_transf E wd))) = draws (trace wd) + 3"
  by (simp_all add: new_camera_transf_def case_prod_beta steps_append rendered_append draws_append)

lemma prepare_readings:
  "steps (trace (snd (prepare E self sp img rp dp wd))) = steps (trace wd)"
  "rendered (trace (snd (prepare E self sp img rp dp wd))) = rendered (trace wd)"
  by (simp_all add: prepare_def Let_def case_prod_beta preprocess_readings new_camera_transf_readings
      split: sum.splits)

section \<open>The pose parameterisation: the exponential map\<close>

lemma vec2ss_matrix_eq: "vec2ss_matrix (a, b, c) = ((0, - c, b), (c, 0, - a), (- b, a, 0))"
  by (simp add: vec2ss_matrix_def zeros33_def)

lemma block33_sets: "block33 (set_33 (set_col3 (set_block33 m r) t) x) = r"
  by (cases m rule: transpose4.cases; cases r rule: transpose3.cases; cases t) simp

lemma col3_sets: "col3 (set_33 (set_col3 (set_block33 m r) t) x) = t"
  by (cases m rule: transpose4.cases; cases r rule: transpose3.cases; cases t) simp

lemma bottom_sets: "bottom_row (set_33 (set_col3 (set_block33 zeros44 r) t) x) = (0, 0, 0, x)"
  by (cases r rule: transpose3.cases; cases t) (simp add: zeros44_def)

lemma matmul4_eye4: "matmul4 eye4 x = x"
  by (cases x rule: transpose4.cases) (simp add: matmul4_def eye4_def)

lemma exp_i_zero:
  "exp_i_of \<lparr>w_param = (0, 0, 0), v_param = (0, 0, 0), theta_param = 0\<rparr> = eye4"
  by (simp add: exp_i_of_def vec2ss_matrix_eq matmul3_def eye3_def eye4_def zeros44_def)

text \<open>
  Claim C5.  For every twist \<open>(w, v, \<theta>)\<close>: the matrix built from \<open>w\<close> is the
  skew-symmetric matrix of \<open>w\<close> (it acts as the cross product with \<open>w\<close>, and its
  transpose is its negative); the rotation block of the exponential is
  \<open>I + sin \<theta> [w] + (1 - cos \<theta>) [w]\<^sup>2\<close>; its translation column is
  \<open>(\<theta> I + (1 - cos \<theta>) [w] + (\<theta> - sin \<theta>) [w]\<^sup>2) v\<close>; its bottom row is \<open>(0, 0, 0, 1)\<close>;
  the forward mapping multiplies the start pose from the left by it; and at the zero
  twist it is the identity, so that the forward mapping returns the start pose.
\<close>

theorem forward_exponential_map:
  "matvec3 (vec2ss_matrix (w_param self)) u = cross3 (w_param self) u
   \<and> transpose3 (vec2ss_matrix (w_param self)) = mscale3 (- 1) (vec2ss_matrix (w_param self))
   \<and> block33 (exp_i_of self) =
       madd3 (madd3 eye3 (mscale3 (sin (theta_param self)) (vec2ss_matrix (w_param self))))
         (mscale3 (1 - cos (theta_param self))
            (matmul3 (vec2ss_matrix (w_param self)) (vec2ss_matrix (w_param self))))
   \<and> col3 (exp_i_of self) =
       matvec3
         (madd3 (madd3 (mscale3 (theta_param self) eye3)
                   (mscale3 (1 - cos (theta_param self)) (vec2ss_matrix (w_param self))))
            (mscale3 (theta_param self - sin (theta_param self))
               (matmul3 (vec2ss_matrix (w_param self)) (vec2ss_matrix (w_param self)))))
         (v_param self)
   \<and> bottom_row (exp_i_of self) = (0, 0, 0, 1)
   \<and> forward self x = matmul4 (exp_i_of self) x
   \<and> exp_i_of \<lparr>w_param = (0, 0, 0), v_param = (0, 0, 0), theta_param = 0\<rparr> = eye4
   \<and> forward \<lparr>w_param = (0, 0, 0), v_param = (0, 0, 0), theta_param = 0\<rparr> x = x"
proof -
  obtain a b c where w: "w_param self = (a, b, c)" by (cases "w_param self") auto
  obtain p q r where u: "u = (p, q, r)" by (cases u) auto
  have 1: "matvec3 (vec2ss_matrix (w_param self)) u = cross3 (w_param self) u"
    by (simp add: w u vec2ss_matrix_eq)
  have 2: "transpose3 (vec2ss_matrix (w_param self)) = mscale3 (- 1) (vec2ss_matrix (w_param self))"
    by (simp add: w vec2ss_matrix_eq)
  have 3: "block33 (exp_i_of self) =
       madd3 (madd3 eye3 (mscale3 (sin (theta_param self)) (vec2ss_matrix (w_param self))))
         (mscale3 (1 - cos (theta_param self))
            (matmul3 (vec2ss_matrix (w_param self)) (vec2ss_matrix (w_param self))))"
    by (simp add: exp_i_of_def Let_def block33_sets)
  have 4: "col3 (exp_i_of self) =
       matvec3
         (madd3 (madd3 (mscale3 (theta_param self) eye3)
                   (mscale3 (1 - cos (theta_param self)) (vec2ss_matrix (w_param self))))
            (mscale3 (theta_param self - sin (theta_param self))
               (matmul3 (vec2ss_matrix (w_param self)) (vec2ss_matrix (w_param self)))))
         (v_param self)"
    by (simp add: exp_i_of_def Let_def col3_sets)
  have 5: "bottom_row (exp_i_of self) = (0, 0, 0, 1)"
    by (simp add: exp_i_of_def Let_def bottom_sets)
  have 6: "forward self x = matmul4 (exp_i_of self) x"
    by (simp add: forward_def)
  have 8: "forward \<lparr>w_param = (0, 0, 0), v_param = (0, 0, 0), theta_param = 0\<rparr> x = x"
    by (simp add: forward_def exp_i_zero matmul4_eye4)
  from 1 2 3 4 5 6 exp_i_zero 8 show ?thesis by blast
qed

section \<open>Diagnostics: the wrapped angular error\<close>

text \<open>
  Claim C8.  For every reference angle and current angle in degrees, the per-axis error
  of the report is \<open>|ref - cur|\<close> when that is below 300, and \<open>||ref - cur| - 360|\<close> when
  it is 300 or more; a reference of 170 and a current angle of \<open>-170\<close> give 20, not 340.
\<close>

theorem angle_error_wraparound:
  "(\<bar>ref - cur\<bar> < 300 \<longrightarrow> angle_error ref cur = \<bar>ref - cur\<bar>)
   \<and> (300 \<le> \<bar>ref - cur\<bar> \<longrightarrow> angle_error ref cur = \<bar>\<bar>ref - cur\<bar> - 360\<bar>)
   \<and> angle_error 170 (- 170) = 20 \<and> angle_error 170 (- 170) \<noteq> 340"
  by (simp add: angle_error_def)

theorem angle_error_wraparound_witness:
  "\<bar>(10::real) - 40\<bar> < 300 \<and> angle_error 10 40 = 30
   \<and> 300 \<le> \<bar>(- 175::real) - 179\<bar> \<and> angle_error (- 175) 179 = 6"
  using angle_error_wraparound [of 10 40] angle_error_wraparound [of "- 175" 179] by simp

section \<open>The stub collaborators, evaluated\<close>

lemma meshgrid_2_2: "meshgrid 2 2 = [[(0, 0), (1, 0)], [(0, 1), (1, 1)]]"
  by (simp add: meshgrid_def numeral_2_eq_2)

lemma stub_estimator_fields:
  "batch_size (stub_estimator n bs s nz dl) = bs"
  "sampling_strategy (stub_estimator n bs s nz dl) = s"
  "noise (stub_estimator n bs s nz dl) = nz"
  "delta_brightness (stub_estimator n bs s nz dl) = dl"
  "iter (stub_estimator n bs s nz dl) = n"
  "self_W (stub_estimator n bs s nz dl) = 2"
  "self_H (stub_estimator n bs s nz dl) = 2"
  "lrate (stub_estimator n bs s nz dl) = 1 / 100"
  "sigma (stub_estimator n bs s nz dl) = 1 / 100"
  "amount (stub_estimator n bs s nz dl) = 8 / 10"
  "dil_iter (stub_estimator n bs s nz dl) = 3"
  "kernel_size (stub_estimator n bs s nz dl) = 5"
  "coords (stub_estimator n bs s nz dl) = [[(0, 0), (1, 0)], [(0, 1), (1, 1)]]"
  "pose_prior (stub_estimator n bs s nz dl) = None"
  by (simp_all add: stub_estimator_def Estimator_init_def stub_def meshgrid_2_2)

lemma stub_fields:
  "hwf (stub kps d) = (2, 2, 1)"
  "get_img_from_pix (stub kps d) b p = (map (\<lambda>c. (Fin 0, Fin 0, Fin 0)) b, map (\<lambda>c. d) b, map (\<lambda>c. Fin 0) b)"
  "sift_detect (stub kps d) img8 = kps"
  "cvt_RGB2HSV (stub kps d) (r, g, bl) = (0, 0, max r (max g bl))"
  "cvt_HSV2RGB (stub kps d) (h, s, v) = (v, v, v)"
  "cv_dilate (stub kps d) m ks it = m"
  "random_noise (stub kps d) mode par img r0 = (img, Suc r0)"
  "random_choice (stub kps d) a sz r0 = (take sz [0..<a], Suc r0)"
  "torch_normal3 (stub kps d) mu sd r0 = ((0, 0, 0), Suc r0)"
  "torch_normal1 (stub kps d) mu sd r0 = (0, Suc r0)"
  "Adam (stub kps d) lr0 = 0"
  "backward_step (stub kps d) opt lr0 cam gph loss = (cam, Suc opt)"
  by (simp_all add: stub_def)

lemma stub_preprocess_plain:
  "preprocess (stub kps d) (stub_estimator n bs s None 0) white2x2 wd =
     ([[(1, 1, 1), (1, 1, 1)], [(1, 1, 1), (1, 1, 1)]], wd)"
  by (simp add: preprocess_def change_brightness_def apply_noise_def div255_def white2x2_def
      stub_estimator_fields)


lemma stub_new_camera_transf:
  "new_camera_transf (stub kps d) wd =
     (\<lparr>w_param = (0, 0, 0), v_param = (0, 0, 0), theta_param = 0\<rparr>,
      wd\<lparr>rng := Suc (Suc (Suc (rng wd))), trace := trace wd @ [Ev_normal, Ev_normal, Ev_normal]\<rparr>)"
  by (simp add: new_camera_transf_def stub_fields)

lemma stub_detected:
  "detected (stub kps d) self img wd = remdups (map (\<lambda>(x, y). (astype_int x, astype_int y)) kps)"
  by (simp add: detected_def find_POI_def stub_fields)

section \<open>An unrecognised sampling strategy\<close>






section \<open>An empty set of points of interest\<close>

lemma estimate_pose_regions_empty:
  assumes "sampling_strategy self = ''interest_regions''" and "detected E self img wd = []"
  shows "estimate_pose E self sp img rp dp wd = (Inl IndexError, self, snd (preprocess E self img wd))"
  by (simp add: estimate_pose_def prepare_regions_fail [OF assms(1)] assms(2)
      make_interest_regions_empty)

lemma estimate_pose_points_empty:
  assumes s: "sampling_strategy self = ''interest_points''" and e: "detected E self img wd = []"
    and i: "0 < iter self" and b: "0 < batch_size self"
  shows "estimate_pose E self sp img rp dp wd =
      (Inl ValueError, self, snd (new_camera_transf E (snd (preprocess E self img wd))))"
proof -
  from i obtain n where n: "nat (iter self) = Suc n"
    by (cases "nat (iter self)") auto
  from s b show ?thesis
    by (simp add: estimate_pose_def prepare_points n iteration_def N_const_def
        resample_points_empty e)
qed

text \<open>
  Claim C2, as the specification states it, fails: it asks for a configuration error
  in place of a failure inside array indexing.  On the stub, whose detector finds
  nothing, the strategy \<open>interest_regions\<close> fails with \<open>IndexError\<close> at the index
  \<^verbatim>\<open>POI[:,1]\<close> of line 158, and the strategy \<open>interest_points\<close> fails with \<open>ValueError\<close>
  at the slice assignment of line 196 in the first iteration, after the parameters have
  been drawn.
\<close>

theorem empty_POI_counterexample:
  "estimate_pose (stub [] (Fin 0)) (stub_estimator 5 2 ''interest_regions'' None 0)
       eye4 white2x2 eye4 (Some depth2x2) world0 =
     (Inl IndexError, stub_estimator 5 2 ''interest_regions'' None 0, world0)
   \<and> estimate_pose (stub [] (Fin 0)) (stub_estimator 5 2 ''interest_points'' None 0)
       eye4 white2x2 eye4 (Some depth2x2) world0 =
     (Inl ValueError, stub_estimator 5 2 ''interest_points'' None 0,
      \<lparr>rng = 3, trace = [Ev_normal, Ev_normal, Ev_normal]\<rparr>)"
  by (simp add: estimate_pose_regions_empty estimate_pose_points_empty stub_estimator_fields
      stub_detected stub_preprocess_plain stub_new_camera_transf world0_def)

text \<open>
  Claim C2, amended.  For every call in which the detector returns an empty set: under
  \<open>interest_regions\<close> the call fails with \<open>IndexError\<close> inside the indexing of the empty
  array, right after the preprocessing and before the loop; under \<open>interest_points\<close>,
  with at least one iteration and a batch size of at least one, it fails with
  \<open>ValueError\<close> inside the first iteration's assignment of the empty array to a slice of
  the batch.  The estimator is left as it was.
\<close>

theorem empty_POI_errors:
  assumes "detected E self img wd = []"
  shows "(sampling_strategy self = ''interest_regions'' \<longrightarrow>
            estimate_pose E self sp img rp dp wd =
              (Inl IndexError, self, snd (preprocess E self img wd)))
       \<and> (sampling_strategy self = ''interest_points'' \<and> 0 < iter self \<and> 0 < batch_size self \<longrightarrow>
            estimate_pose E self sp img rp dp wd =
              (Inl ValueError, self, snd (new_camera_transf E (snd (preprocess E self img wd)))))"
  using assms by (simp add: estimate_pose_regions_empty estimate_pose_points_empty)

theorem empty_POI_errors_witness:
  "detected (stub [] (Fin 0)) (stub_estimator 5 2 ''interest_regions'' None 0) white2x2 world0 = []
   \<and> fst (estimate_pose (stub [] (Fin 0)) (stub_estimator 5 2 ''interest_regions'' None 0)
       eye4 white2x2 eye4 (Some depth2x2) world0) = Inl IndexError
   \<and> detected (stub [] (Fin 0)) (stub_estimator 5 2 ''interest_points'' None 0) white2x2 world0 = []
   \<and> fst (estimate_pose (stub [] (Fin 0)) (stub_estimator 5 2 ''interest_points'' None 0)
       eye4 white2x2 eye4 (Some depth2x2) world0) = Inl ValueError"
proof -
  let ?r = "stub_estimator 5 2 ''interest_regions'' None 0"
  let ?p = "stub_estimator 5 2 ''interest_points'' None 0"
  have dr: "detected (stub [] (Fin 0)) ?r white2x2 world0 = []"
    by (simp add: stub_detected)
  have dp: "detected (stub [] (Fin 0)) ?p white2x2 world0 = []"
    by (simp add: stub_detected)
  from empty_POI_errors [OF dr, of eye4 eye4 "Some depth2x2"]
  have a: "fst (estimate_pose (stub [] (Fin 0)) ?r eye4 white2x2 eye4 (Some depth2x2) world0)
      = Inl IndexError"
    by (simp add: stub_estimator_fields)
  from empty_POI_errors [OF dp, of eye4 eye4 "Some depth2x2"]
  have b: "fst (estimate_pose (stub [] (Fin 0)) ?p eye4 white2x2 eye4 (Some depth2x2) world0)
      = Inl ValueError"
    by (simp add: stub_estimator_fields)
  from dr dp a b show ?thesis by simp
qed

section \<open>An iteration count of zero\<close>





section \<open>The loss is never checked\<close>

lemma estimate_pose_Some:
  assumes "estimate_pose E self sp img rp dp wd = (Inr (Some p), self', wd')"
  shows "\<exists>fr loc wd1 loc'. prepare E self sp img rp dp wd = (Inr (fr, loc), wd1)
      \<and> optimization_loop E self fr (nat (iter self)) 0 loc wd1 = (Inr (Next loc'), wd')
      \<and> pose loc' = Some p \<and> self' = self\<lparr>pose_prior := Some p\<rparr>"
  using assms
  by (auto simp: estimate_pose_def split: prod.splits sum.splits flow.splits option.splits)

lemma estimate_pose_steps:
  assumes "estimate_pose E self sp img rp dp wd = (Inr (Some p), self', wd')"
  shows "map fst (steps (trace wd')) = map fst (steps (trace wd)) @ [0..<nat (iter self)]"
proof -
  from estimate_pose_Some [OF assms] obtain fr loc wd1 loc' where
    p: "prepare E self sp img rp dp wd = (Inr (fr, loc), wd1)"
    and l: "optimization_loop E self fr (nat (iter self)) 0 loc wd1 = (Inr (Next loc'), wd')"
    by blast
  from prepare_readings(1) [of E self sp img rp dp wd] p
  have "steps (trace wd1) = steps (trace wd)" by simp
  with loop_Next [OF l] show ?thesis by simp
qed

subsection \<open>A run of the stub under the random strategy, with a batch of two\<close>

lemma prepare_random:
  assumes "sampling_strategy self = ''random''"
  shows "prepare E self sp img rp dp wd =
     (Inr (\<lparr>start_pose = sp, obs_img_noised = fst (preprocess E self img wd),
            obs_img_depth = dp, POI = [], interest_regions = [], not_POI = [],
            coords_flat = concat (coords self), refs = pose_angles rp\<rparr>,
           \<lparr>cam_transf = fst (new_camera_transf E (snd (preprocess E self img wd))),
            optimizer = Adam E (lrate self), lr = lrate self, batch = None, pose = None\<rparr>),
      snd (new_camera_transf E (snd (preprocess E self img wd))))"
  using assms by (simp add: prepare_def Let_def case_prod_beta)

lemma take_2_upt_4: "take 2 [0..<4] = [0, Suc 0]"
  by code_simp

lemma stub_resample_random:
  "resample (stub kps d) (stub_estimator n 2 ''random'' nz dl) stub_frame wd =
     (Inr (Next [(0, 0), (1, 0)]),
      wd\<lparr>rng := Suc (rng wd), trace := trace wd @ [Ev_choice 4 2]\<rparr>)"
  by (simp add: resample_def draw_rows_def np_random_choice_def stub_estimator_fields stub_fields
      stub_frame_def take_2_upt_4)

lemma stub_targets:
  "targets stub_frame [(0, 0), (1, 0)] = Inr ([(1, 1, 1), (1, 1, 1)], [Fin 1, Fin 1])"
  by (simp add: targets_def gather_def py_index_def stub_frame_def depth2x2_def)

lemma stub_loss:
  "loss_of (stub kps d) [(0, 0), (1, 0)] p [(1, 1, 1), (1, 1, 1)] [Fin 1, Fin 1] =
     tadd (Fin 1) (tdivn (tadd (tadd (Fin 0) (tmul (tsub d (Fin 1)) (tsub d (Fin 1))))
                            (tmul (tsub d (Fin 1)) (tsub d (Fin 1)))) (Suc (Suc 0)))"
  by (simp add: loss_of_def stub_fields img2mse_def depth2mse_def flat3_def torch_mean_def
      l_const_def)

lemma stub_loss_NonFin:
  "loss_of (stub kps NonFin) [(0, 0), (1, 0)] p [(1, 1, 1), (1, 1, 1)] [Fin 1, Fin 1] = NonFin"
  by (simp add: stub_loss)

lemma stub_loss_Fin:
  "loss_of (stub kps (Fin 1)) [(0, 0), (1, 0)] p [(1, 1, 1), (1, 1, 1)] [Fin 1, Fin 1] = Fin 1"
  by (simp add: stub_loss)

lemma stub_iteration:
  "\<exists>loc' wd'. iteration (stub kps d) (stub_estimator n 2 ''random'' nz dl) stub_frame k loc wd
        = (Inr (Next loc'), wd')
     \<and> cam_transf loc' = cam_transf loc
     \<and> pose loc' = Some (forward (cam_transf loc) eye4)
     \<and> steps (trace wd') = steps (trace wd)
          @ [(k, loss_of (stub kps d) [(0, 0), (1, 0)] (forward (cam_transf loc) eye4)
                   [(1, 1, 1), (1, 1, 1)] [Fin 1, Fin 1])]
     \<and> rendered (trace wd') = rendered (trace wd) @ [[(0, 0), (1, 0)]]"
proof -
  let ?loc = "loc\<lparr>batch := Some [(0, 0), (1, 0)]\<rparr>"
  let ?wd = "wd\<lparr>rng := Suc (rng wd), trace := trace wd @ [Ev_choice 4 2]\<rparr>"
  have b: "batch ?loc = Some [(0, 0), (1, 0)]" by simp
  have sp: "start_pose stub_frame = eye4" by (simp add: stub_frame_def)
  from iteration_body_Next [OF b stub_targets, of "stub kps d"
      "stub_estimator n 2 ''random'' nz dl" k ?wd]
  show ?thesis
    by (auto simp: iteration_def N_const_def stub_resample_random stub_fields sp
        steps_append rendered_append)
qed

lemma stub_loop:
  "\<exists>loc' wd'. optimization_loop (stub kps d) (stub_estimator n 2 ''random'' nz dl) stub_frame m k loc wd
        = (Inr (Next loc'), wd')
     \<and> cam_transf loc' = cam_transf loc
     \<and> (0 < m \<longrightarrow> pose loc' = Some (forward (cam_transf loc) eye4))
     \<and> steps (trace wd') = steps (trace wd)
          @ map (\<lambda>j. (j, loss_of (stub kps d) [(0, 0), (1, 0)] (forward (cam_transf loc) eye4)
                   [(1, 1, 1), (1, 1, 1)] [Fin 1, Fin 1])) [k..<k + m]
     \<and> rendered (trace wd') = rendered (trace wd) @ replicate m [(0, 0), (1, 0)]"
proof (induction m arbitrary: k loc wd)
  case 0
  then show ?case by simp
next
  case (Suc m)
  from stub_iteration [of kps d n nz dl k loc wd] obtain loc1 wd1 where
    i: "iteration (stub kps d) (stub_estimator n 2 ''random'' nz dl) stub_frame k loc wd
        = (Inr (Next loc1), wd1)"
    and c1: "cam_transf loc1 = cam_transf loc"
    and p1: "pose loc1 = Some (forward (cam_transf loc) eye4)"
    and s1: "steps (trace wd1) = steps (trace wd)
          @ [(k, loss_of (stub kps d) [(0, 0), (1, 0)] (forward (cam_transf loc) eye4)
                   [(1, 1, 1), (1, 1, 1)] [Fin 1, Fin 1])]"
    and r1: "rendered (trace wd1) = rendered (trace wd) @ [[(0, 0), (1, 0)]]"
    by blast
  from Suc.IH [of "Suc k" loc1 wd1] obtain loc2 wd2 where
    l: "optimization_loop (stub kps d) (stub_estimator n 2 ''random'' nz dl) stub_frame m (Suc k) loc1 wd1
        = (Inr (Next loc2), wd2)"
    and c2: "cam_transf loc2 = cam_transf loc1"
    and p2: "0 < m \<longrightarrow> pose loc2 = Some (forward (cam_transf loc1) eye4)"
    and s2: "steps (trace wd2) = steps (trace wd1)
          @ map (\<lambda>j. (j, loss_of (stub kps d) [(0, 0), (1, 0)] (forward (cam_transf loc1) eye4)
                   [(1, 1, 1), (1, 1, 1)] [Fin 1, Fin 1])) [Suc k..<Suc k + m]"
    and r2: "rendered (trace wd2) = rendered (trace wd1) @ replicate m [(0, 0), (1, 0)]"
    by blast
  have u: "[k..<k + Suc m] = k # [Suc k..<Suc k + m]"
    by (simp add: upt_rec)
  have l': "optimization_loop (stub kps d) (stub_estimator n 2 ''random'' nz dl) stub_frame (Suc m) k loc wd
        = (Inr (Next loc2), wd2)"
    by (simp add: i l)
  have p: "pose loc2 = Some (forward (cam_transf loc) eye4)"
  proof (cases m)
    case 0
    with l p1 show ?thesis by simp
  next
    case (Suc m')
    with p2 c1 show ?thesis by simp
  qed
  have s: "steps (trace wd2) = steps (trace wd)
          @ map (\<lambda>j. (j, loss_of (stub kps d) [(0, 0), (1, 0)] (forward (cam_transf loc) eye4)
                   [(1, 1, 1), (1, 1, 1)] [Fin 1, Fin 1])) [k..<k + Suc m]"
    unfolding u using s1 s2 c1 by simp
  have r: "rendered (trace wd2) = rendered (trace wd) @ replicate (Suc m) [(0, 0), (1, 0)]"
    using r1 r2 by (simp add: replicate_append_same)
  from l' c1 c2 p s r show ?case by auto
qed

lemma forward_zero: "forward \<lparr>w_param = (0, 0, 0), v_param = (0, 0, 0), theta_param = 0\<rparr> x = x"
  by (simp add: forward_def exp_i_zero matmul4_eye4)

lemma stub_prepare_random:
  "prepare (stub kps d) (stub_estimator n 2 ''random'' None 0) eye4 white2x2 eye4 (Some depth2x2) wd =
     (Inr (stub_frame,
           \<lparr>cam_transf = \<lparr>w_param = (0, 0, 0), v_param = (0, 0, 0), theta_param = 0\<rparr>,
            optimizer = 0, lr = 1 / 100, batch = None, pose = None\<rparr>),
      wd\<lparr>rng := Suc (Suc (Suc (rng wd))), trace := trace wd @ [Ev_normal, Ev_normal, Ev_normal]\<rparr>)"
  by (simp add: prepare_random stub_estimator_fields stub_preprocess_plain stub_new_camera_transf
      stub_fields stub_frame_def)

lemma stub_run:
  assumes "0 < m"
  shows "\<exists>wd'. estimate_pose (stub kps d) (stub_estimator (int m) 2 ''random'' None 0)
            eye4 white2x2 eye4 (Some depth2x2) world0 =
          (Inr (Some eye4), (stub_estimator (int m) 2 ''random'' None 0)\<lparr>pose_prior := Some eye4\<rparr>, wd')
     \<and> steps (trace wd') =
          map (\<lambda>j. (j, loss_of (stub kps d) [(0, 0), (1, 0)] eye4 [(1, 1, 1), (1, 1, 1)] [Fin 1, Fin 1]))
            [0..<m]
     \<and> rendered (trace wd') = replicate m [(0, 0), (1, 0)]"
proof -
  let ?loc = "\<lparr>cam_transf = \<lparr>w_param = (0, 0, 0), v_param = (0, 0, 0), theta_param = 0\<rparr>,
            optimizer = 0::nat, lr = 1 / 100, batch = None, pose = None\<rparr>"
  let ?wd = "world0\<lparr>rng := Suc (Suc (Suc (rng world0))),
      trace := trace world0 @ [Ev_normal, Ev_normal, Ev_normal]\<rparr>"
  from stub_loop [of kps d "int m" None 0 m 0 ?loc ?wd] obtain loc' wd' where
    l: "optimization_loop (stub kps d) (stub_estimator (int m) 2 ''random'' None 0) stub_frame m 0 ?loc ?wd
        = (Inr (Next loc'), wd')"
    and p: "0 < m \<longrightarrow> pose loc' = Some (forward (cam_transf ?loc) eye4)"
    and s: "steps (trace wd') = steps (trace ?wd)
          @ map (\<lambda>j. (j, loss_of (stub kps d) [(0, 0), (1, 0)] (forward (cam_transf ?loc) eye4)
                   [(1, 1, 1), (1, 1, 1)] [Fin 1, Fin 1])) [0..<0 + m]"
    and r: "rendered (trace wd') = rendered (trace ?wd) @ replicate m [(0, 0), (1, 0)]"
    by blast
  from p assms have p': "pose loc' = Some eye4" by (simp add: forward_zero)
  have e: "estimate_pose (stub kps d) (stub_estimator (int m) 2 ''random'' None 0)
            eye4 white2x2 eye4 (Some depth2x2) world0 =
          (Inr (Some eye4), (stub_estimator (int m) 2 ''random'' None 0)\<lparr>pose_prior := Some eye4\<rparr>, wd')"
    by (simp add: estimate_pose_def stub_prepare_random stub_estimator_fields l p')
  from s have s': "steps (trace wd') =
          map (\<lambda>j. (j, loss_of (stub kps d) [(0, 0), (1, 0)] eye4 [(1, 1, 1), (1, 1, 1)] [Fin 1, Fin 1]))
            [0..<m]"
    by (simp add: forward_zero world0_def)
  from r have r': "rendered (trace wd') = replicate m [(0, 0), (1, 0)]"
    by (simp add: world0_def)
  from e s' r' show ?thesis by blast
qed

lemma upt_0_2: "[0..<2] = [0, Suc 0]"
  by code_simp

text \<open>
  Claim C3, as the specification states it, fails: it asks that an iteration whose loss
  is not finite aborts the loop.  On the stub whose renderer reports a depth that is not
  finite, a call with two iterations steps the optimizer on a loss that is not finite in
  iteration 0, goes on to iteration 1, steps there again, and returns a pose.
\<close>

theorem non_finite_loss_counterexample:
  "fst (estimate_pose (stub [] NonFin) (stub_estimator 2 2 ''random'' None 0)
          eye4 white2x2 eye4 (Some depth2x2) world0) = Inr (Some eye4)
   \<and> steps (trace (snd (snd (estimate_pose (stub [] NonFin) (stub_estimator 2 2 ''random'' None 0)
          eye4 white2x2 eye4 (Some depth2x2) world0)))) = [(0, NonFin), (Suc 0, NonFin)]
   \<and> map (\<lambda>(k, loss). is_finite loss)
        (steps (trace (snd (snd (estimate_pose (stub [] NonFin) (stub_estimator 2 2 ''random'' None 0)
          eye4 white2x2 eye4 (Some depth2x2) world0))))) = [False, False]"
proof -
  have m: "(0::nat) < 2" by simp
  from stub_run [OF m, of "[]" NonFin] show ?thesis
    by (auto simp: stub_loss_NonFin upt_0_2)
qed

text \<open>
  Claim C3, amended.  No iteration checks its loss: whenever an iteration has its batch
  and its supervision targets, it computes the loss and passes it to
  \<^verbatim>\<open>loss.backward(); optimizer.step()\<close> whatever its value, and falls through to the next
  iteration; and every call that returns a pose has stepped the optimizer once in each
  of the iterations \<open>0, ..., N_iter - 1\<close>.
\<close>

theorem no_finiteness_check:
  "(batch loc = Some b \<and> targets fr b = Inr (target_s, depth_s) \<longrightarrow>
      (\<exists>loc' wd'. iteration_body E self fr k loc wd = (Inr (Next loc'), wd')
         \<and> steps (trace wd') = steps (trace wd)
              @ [(k, loss_of E b (forward (cam_transf loc) (start_pose fr)) target_s depth_s)]))
   \<and> (estimate_pose E self sp img rp dp wd0 = (Inr (Some p), self', wd1) \<longrightarrow>
        map fst (steps (trace wd1)) = map fst (steps (trace wd0)) @ [0..<nat (iter self)])"
proof (intro conjI impI)
  assume "batch loc = Some b \<and> targets fr b = Inr (target_s, depth_s)"
  then have b: "batch loc = Some b" and t: "targets fr b = Inr (target_s, depth_s)" by simp_all
  from iteration_body_Next [OF b t, of E self k wd]
  show "\<exists>loc' wd'. iteration_body E self fr k loc wd = (Inr (Next loc'), wd')
         \<and> steps (trace wd') = steps (trace wd)
              @ [(k, loss_of E b (forward (cam_transf loc) (start_pose fr)) target_s depth_s)]"
    by blast
next
  assume "estimate_pose E self sp img rp dp wd0 = (Inr (Some p), self', wd1)"
  then show "map fst (steps (trace wd1)) = map fst (steps (trace wd0)) @ [0..<nat (iter self)]"
    by (rule estimate_pose_steps)
qed

theorem no_finiteness_check_witness:
  "batch \<lparr>cam_transf = \<lparr>w_param = (0, 0, 0), v_param = (0, 0, 0), theta_param = 0\<rparr>,
          optimizer = 0::nat, lr = 1 / 100, batch = Some [(0, 0), (1, 0)], pose = None\<rparr>
     = Some [(0, 0), (1, 0)]
   \<and> targets stub_frame [(0, 0), (1, 0)] = Inr ([(1, 1, 1), (1, 1, 1)], [Fin 1, Fin 1])
   \<and> (\<exists>loc' wd'. iteration_body (stub [] NonFin) (stub_estimator 2 2 ''random'' None 0) stub_frame 0
          \<lparr>cam_transf = \<lparr>w_param = (0, 0, 0), v_param = (0, 0, 0), theta_param = 0\<rparr>,
           optimizer = 0::nat, lr = 1 / 100, batch = Some [(0, 0), (1, 0)], pose = None\<rparr> world0
          = (Inr (Next loc'), wd')
        \<and> steps (trace wd') = [(0, NonFin)])
   \<and> (\<exists>self' wd1. estimate_pose (stub [] NonFin) (stub_estimator 2 2 ''random'' None 0)
          eye4 white2x2 eye4 (Some depth2x2) world0 = (Inr (Some eye4), self', wd1))
   \<and> map fst (steps (trace (snd (snd (estimate_pose (stub [] NonFin)
          (stub_estimator 2 2 ''random'' None 0) eye4 white2x2 eye4 (Some depth2x2) world0)))))
       = [0, Suc 0]"
proof -
  let ?E = "stub [] NonFin"
  let ?s = "stub_estimator 2 2 ''random'' None 0"
  let ?loc = "\<lparr>cam_transf = \<lparr>w_param = (0, 0, 0), v_param = (0, 0, 0), theta_param = 0\<rparr>,
          optimizer = 0::nat, lr = 1 / 100, batch = Some [(0, 0), (1, 0)], pose = None\<rparr>"
  have b: "batch ?loc = Some [(0, 0), (1, 0)]" by simp
  have m: "(0::nat) < 2" by simp
  from stub_run [OF m, of "[]" NonFin] obtain wd1 where
    e: "estimate_pose ?E ?s eye4 white2x2 eye4 (Some depth2x2) world0 =
          (Inr (Some eye4), ?s\<lparr>pose_prior := Some eye4\<rparr>, wd1)"
    by auto
  note t = no_finiteness_check [of ?loc "[(0, 0), (1, 0)]" stub_frame "[(1, 1, 1), (1, 1, 1)]"
      "[Fin 1, Fin 1]" ?E ?s 0 world0 eye4 white2x2 eye4 "Some depth2x2" world0 eye4
      "?s\<lparr>pose_prior := Some eye4\<rparr>" wd1]
  from t b stub_targets have
    1: "\<exists>loc' wd'. iteration_body ?E ?s stub_frame 0 ?loc world0 = (Inr (Next loc'), wd')
        \<and> steps (trace wd') = [(0, NonFin)]"
    by (simp add: stub_loss_NonFin world0_def stub_frame_def)
  from t e have
    2: "map fst (steps (trace wd1)) = [0, Suc 0]"
    by (simp add: world0_def stub_estimator_fields upt_0_2)
  from e have 3: "snd (snd (estimate_pose ?E ?s eye4 white2x2 eye4 (Some depth2x2) world0)) = wd1"
    by simp
  from e have 4: "\<exists>self' wd1. estimate_pose ?E ?s eye4 white2x2 eye4 (Some depth2x2) world0
      = (Inr (Some eye4), self', wd1)" by blast
  from b stub_targets 1 2 3 4 show ?thesis by simp
qed

section \<open>The batches of a call\<close>

lemma iteration_Next_rendered:
  assumes "iteration E self fr k loc wd = (Inr (Next loc'), wd')"
  shows "length (rendered (trace wd')) = Suc (length (rendered (trace wd)))"
proof -
  from assms obtain b wd1 where r: "resample E self fr wd = (Inr (Next b), wd1)"
    and it: "iteration_body E self fr k (loc\<lparr>batch := Some b\<rparr>) wd1 = (Inr (Next loc'), wd')"
    by (auto simp: iteration_def N_const_def split: prod.splits sum.splits flow.splits)
  note rd = resample_readings(2) [OF r]
  from iteration_body_cases [of E self fr k "loc\<lparr>batch := Some b\<rparr>" wd1] it
  obtain target_s depth_s where t: "targets fr b = Inr (target_s, depth_s)" by auto
  have bb: "batch (loc\<lparr>batch := Some b\<rparr>) = Some b" by simp
  from iteration_body_Next [OF bb t, of E self k wd1] it rd
  show ?thesis by auto
qed

lemma loop_Next_rendered:
  "optimization_loop E self fr n k loc wd = (Inr (Next loc'), wd') \<Longrightarrow>
     length (rendered (trace wd')) = length (rendered (trace wd)) + n"
proof (induction n arbitrary: k loc wd)
  case 0
  then show ?case by simp
next
  case (Suc n)
  from Suc.prems obtain loc1 wd1 where
    i: "iteration E self fr k loc wd = (Inr (Next loc1), wd1)"
    and l: "optimization_loop E self fr n (Suc k) loc1 wd1 = (Inr (Next loc'), wd')"
    by (auto split: prod.splits sum.splits flow.splits)
  from iteration_Next_rendered [OF i] Suc.IH [OF l] show ?case by simp
qed

lemma estimate_pose_world:
  "snd (snd (estimate_pose E self sp img rp dp wd)) =
     (case prepare E self sp img rp dp wd of
        (Inl e, wd1) \<Rightarrow> wd1
      | (Inr (fr, loc), wd1) \<Rightarrow> snd (optimization_loop E self fr (nat (iter self)) 0 loc wd1))"
  by (simp add: estimate_pose_def split: prod.splits sum.splits flow.splits option.splits)

lemma stub_choice_contract: "choice_contract (stub kps d)"
  by (auto simp: choice_contract_def stub_fields list_all_iff dest: in_set_takeD)

lemma stub_grid_ok: "grid_ok (stub_estimator n bs s nz dl)"
  by (simp add: grid_ok_def stub_estimator_fields meshgrid_2_2)

lemma one_iteration_run:
  assumes p: "prepare E self sp img rp dp wd = (Inr (fr, loc), wd1)"
    and r: "resample E self fr wd1 = (Inr (Next b), wd2)"
    and t: "targets fr b = Inr (target_s, depth_s)"
    and n: "nat (iter self) = Suc 0"
  shows "fst (estimate_pose E self sp img rp dp wd) = Inr (Some (forward (cam_transf loc) (start_pose fr)))"
    and "rendered (trace (snd (snd (estimate_pose E self sp img rp dp wd)))) = rendered (trace wd) @ [b]"
proof -
  let ?loc = "loc\<lparr>batch := Some b\<rparr>"
  have bb: "batch ?loc = Some b" by simp
  from iteration_body_Next [OF bb t, of E self 0 wd2] obtain loc' wd' where
    ib: "iteration_body E self fr 0 ?loc wd2 = (Inr (Next loc'), wd')"
    and po: "pose loc' = Some (forward (cam_transf loc) (start_pose fr))"
    and re: "rendered (trace wd') = rendered (trace wd2) @ [b]"
    by auto
  have it: "iteration E self fr 0 loc wd1 = (Inr (Next loc'), wd')"
    by (simp add: iteration_def N_const_def r ib)
  have e: "estimate_pose E self sp img rp dp wd =
      (Inr (Some (forward (cam_transf loc) (start_pose fr))),
       self\<lparr>pose_prior := Some (forward (cam_transf loc) (start_pose fr))\<rparr>, wd')"
    by (simp add: estimate_pose_def p n it po)
  from prepare_readings(2) [of E self sp img rp dp wd] p
  have r1: "rendered (trace wd1) = rendered (trace wd)" by simp
  note r2 = resample_readings(2) [OF r]
  from e show "fst (estimate_pose E self sp img rp dp wd) = Inr (Some (forward (cam_transf loc) (start_pose fr)))"
    by simp
  from e re r1 r2 show "rendered (trace (snd (snd (estimate_pose E self sp img rp dp wd)))) = rendered (trace wd) @ [b]"
    by simp
qed

lemma stub_prepare_points:
  "prepare (stub [(1 / 2, 1 / 2)] d) (stub_estimator n bs ''interest_points'' None 0)
       eye4 white2x2 eye4 (Some depth2x2) wd =
     (Inr (\<lparr>start_pose = eye4,
            obs_img_noised = [[(1, 1, 1), (1, 1, 1)], [(1, 1, 1), (1, 1, 1)]],
            obs_img_depth = Some depth2x2, POI = [(0, 0)], interest_regions = [],
            not_POI = [(1, 0), (0, 1), (1, 1)],
            coords_flat = [(0, 0), (1, 0), (0, 1), (1, 1)], refs = pose_angles eye4\<rparr>,
           \<lparr>cam_transf = \<lparr>w_param = (0, 0, 0), v_param = (0, 0, 0), theta_param = 0\<rparr>,
            optimizer = 0, lr = 1 / 100, batch = None, pose = None\<rparr>),
      wd\<lparr>rng := Suc (Suc (Suc (rng wd))), trace := trace wd @ [Ev_normal, Ev_normal, Ev_normal]\<rparr>)"
  by (simp add: prepare_points stub_estimator_fields stub_preprocess_plain stub_new_camera_transf
      stub_fields stub_detected astype_int_def make_not_POI_def)

lemma stub_resample_points:
  "resample (stub kps d) (stub_estimator n 2 ''interest_points'' nz dl)
       \<lparr>start_pose = eye4,
            obs_img_noised = [[(1, 1, 1), (1, 1, 1)], [(1, 1, 1), (1, 1, 1)]],
            obs_img_depth = Some depth2x2, POI = [(0, 0)], interest_regions = [],
            not_POI = [(1, 0), (0, 1), (1, 1)],
            coords_flat = [(0, 0), (1, 0), (0, 1), (1, 1)], refs = pose_angles eye4\<rparr> wd =
     (Inr (Next [(0, 0), (1, 0)]),
      wd\<lparr>rng := Suc (rng wd), trace := trace wd @ [Ev_choice 3 1]\<rparr>)"
  by (simp add: resample_def draw_rows_def np_random_choice_def stub_estimator_fields stub_fields
      upt_rec)

lemma stub_preprocess_4x4:
  "preprocess (stub kps d) (stub_estimator n bs s None 0) white4x4 wd =
     (replicate 4 (replicate 4 (1, 1, 1)), wd)"
  by (simp add: preprocess_def change_brightness_def apply_noise_def div255_def white4x4_def
      stub_estimator_fields)

lemma stub_prepare_outside:
  "prepare (stub [(7 / 2, 7 / 2)] d) (stub_estimator n bs ''interest_points'' None 0)
       eye4 white4x4 eye4 (Some depth4x4) wd =
     (Inr (\<lparr>start_pose = eye4,
            obs_img_noised = replicate 4 (replicate 4 (1, 1, 1)),
            obs_img_depth = Some depth4x4, POI = [(3, 3)], interest_regions = [],
            not_POI = [(0, 0), (1, 0), (0, 1), (1, 1)],
            coords_flat = [(0, 0), (1, 0), (0, 1), (1, 1)], refs = pose_angles eye4\<rparr>,
           \<lparr>cam_transf = \<lparr>w_param = (0, 0, 0), v_param = (0, 0, 0), theta_param = 0\<rparr>,
            optimizer = 0, lr = 1 / 100, batch = None, pose = None\<rparr>),
      wd\<lparr>rng := Suc (Suc (Suc (rng wd))), trace := trace wd @ [Ev_normal, Ev_normal, Ev_normal]\<rparr>)"
  by (simp add: prepare_points stub_estimator_fields stub_preprocess_4x4 stub_new_camera_transf
      stub_fields stub_detected astype_int_def make_not_POI_def)

lemma stub_resample_outside:
  "resample (stub kps d) (stub_estimator n 1 ''interest_points'' nz dl)
       \<lparr>start_pose = eye4,
            obs_img_noised = replicate 4 (replicate 4 (1, 1, 1)),
            obs_img_depth = Some depth4x4, POI = [(3, 3)], interest_regions = [],
            not_POI = [(0, 0), (1, 0), (0, 1), (1, 1)],
            coords_flat = [(0, 0), (1, 0), (0, 1), (1, 1)], refs = pose_angles eye4\<rparr> wd =
     (Inr (Next [(3, 3)]),
      wd\<lparr>rng := Suc (rng wd), trace := trace wd @ [Ev_choice 1 1]\<rparr>)"
  by (simp add: resample_def draw_rows_def np_random_choice_def stub_estimator_fields stub_fields)

lemma stub_targets_outside:
  "targets \<lparr>start_pose = eye4,
            obs_img_noised = replicate 4 (replicate 4 (1, 1, 1)),
            obs_img_depth = Some depth4x4, POI = [(3, 3)], interest_regions = [],
            not_POI = [(0, 0), (1, 0), (0, 1), (1, 1)],
            coords_flat = [(0, 0), (1, 0), (0, 1), (1, 1)], refs = pose_angles eye4\<rparr> [(3, 3)]
     = Inr ([(1, 1, 1)], [Fin 1])"
  by (simp add: targets_def gather_def py_index_def depth4x4_def)


text \<open>
  Claim C9, as the specification states it, fails: it puts every coordinate of every
  batch inside \<open>[0,W) \<times> [0,H)\<close>.  Under \<open>interest_points\<close> a batch holds the keypoints of
  the detector as they are, and the call never compares the size of the observed image
  with the grid of the renderer (lines 112 and 151).  On the stub, whose grid is two by
  two, a call on an image of four by four pixels with a keypoint at \<open>(3.5, 3.5)\<close> renders
  the batch \<open>[(3, 3)]\<close> and returns a pose.
\<close>

theorem batch_outside_grid_counterexample:
  "choice_contract (stub [(7 / 2, 7 / 2)] (Fin 1))
   \<and> grid_ok (stub_estimator 1 1 ''interest_points'' None 0)
   \<and> self_W (stub_estimator 1 1 ''interest_points'' None 0) = 2
   \<and> self_H (stub_estimator 1 1 ''interest_points'' None 0) = 2
   \<and> fst (estimate_pose (stub [(7 / 2, 7 / 2)] (Fin 1)) (stub_estimator 1 1 ''interest_points'' None 0)
          eye4 white4x4 eye4 (Some depth4x4) world0) = Inr (Some eye4)
   \<and> rendered (trace (snd (snd (estimate_pose (stub [(7 / 2, 7 / 2)] (Fin 1))
          (stub_estimator 1 1 ''interest_points'' None 0) eye4 white4x4 eye4 (Some depth4x4) world0))))
       = [[(3, 3)]]
   \<and> \<not> in_grid (stub_estimator 1 1 ''interest_points'' None 0) (3, 3)"
proof -
  let ?E = "stub [(7 / 2, 7 / 2)] (Fin 1)"
  let ?s = "stub_estimator 1 1 ''interest_points'' None 0"
  have n: "nat (iter ?s) = Suc 0" by (simp add: stub_estimator_fields)
  note o = one_iteration_run [OF stub_prepare_outside stub_resample_outside stub_targets_outside n,
      of "Fin 1" world0]
  from o(1) have 1: "fst (estimate_pose ?E ?s eye4 white4x4 eye4 (Some depth4x4) world0) = Inr (Some eye4)"
    by (simp add: forward_zero)
  from o(2) have 2: "rendered (trace (snd (snd (estimate_pose ?E ?s eye4 white4x4 eye4
      (Some depth4x4) world0)))) = [[(3, 3)]]"
    by (simp add: world0_def)
  have 3: "\<not> in_grid ?s (3, 3)" by (simp add: in_grid_def stub_estimator_fields)
  have 4: "self_W ?s = 2" "self_H ?s = 2" by (simp_all add: stub_estimator_fields)
  from stub_choice_contract stub_grid_ok 1 2 3 4 show ?thesis by blast
qed

text \<open>
  Claim C9, amended.  Take an estimator as \<^verbatim>\<open>__init__\<close> leaves it and a sampler that keeps
  NumPy's contract.  Then every batch that a call renders, in whichever iteration and
  under whichever strategy, holds exactly \<open>batch_size\<close> coordinates; each of them lies
  inside \<open>[0,W) \<times> [0,H)\<close> or, under \<open>interest_points\<close>, is one of the points of interest
  that the detector reports for this call; under the random strategy no coordinate
  occurs twice.  So every coordinate lies inside the grid whenever the points of
  interest of the call do.  And a call that returns a pose has rendered one such batch
  in each of its iterations.
\<close>

theorem batches_of_a_call:
  assumes c: "choice_contract E" and g: "grid_ok self"
    and inv: "list_all (batch_ok self (detected E self img wd)) (rendered (trace wd))"
  shows "list_all (batch_ok self (detected E self img wd))
           (rendered (trace (snd (snd (estimate_pose E self sp img rp dp wd)))))
     \<and> (list_all (in_grid self) (detected E self img wd) \<longrightarrow>
          list_all (list_all (in_grid self))
            (rendered (trace (snd (snd (estimate_pose E self sp img rp dp wd))))))
     \<and> (fst (estimate_pose E self sp img rp dp wd) = Inr (Some p) \<longrightarrow>
          length (rendered (trace (snd (snd (estimate_pose E self sp img rp dp wd)))))
            = length (rendered (trace wd)) + nat (iter self))"
proof -
  let ?poi = "detected E self img wd"
  let ?out = "rendered (trace (snd (snd (estimate_pose E self sp img rp dp wd))))"
  have a: "list_all (batch_ok self ?poi) ?out"
  proof (cases "prepare E self sp img rp dp wd")
    case (Pair r wd1)
    from prepare_readings(2) [of E self sp img rp dp wd] Pair inv
    have inv1: "list_all (batch_ok self ?poi) (rendered (trace wd1))" by simp
    show ?thesis
    proof (cases r)
      case (Inl e)
      with Pair inv1 show ?thesis by (simp add: estimate_pose_world)
    next
      case (Inr fl)
      obtain fr loc where fl: "fl = (fr, loc)" by (cases fl)
      with Pair Inr have p: "prepare E self sp img rp dp wd = (Inr (fr, loc), wd1)" by simp
      have f: "frame_ok self fr" by (rule prepare_frame_ok [OF g p])
      have eq: "batch_ok self (POI fr) = batch_ok self ?poi"
        by (rule ext, rule batch_ok_points) (simp add: prepare_Inr(2) [OF p])
      from inv1 have inv2: "list_all (batch_ok self (POI fr)) (rendered (trace wd1))"
        by (simp add: eq)
      from loop_rendered [OF c f inv2, of "nat (iter self)" 0 loc] p
      show ?thesis by (simp add: estimate_pose_world eq)
    qed
  qed
  have b: "list_all (list_all (in_grid self)) ?out" if "list_all (in_grid self) ?poi"
    using a that unfolding list_all_iff [of "batch_ok self ?poi"] list_all_iff [of "list_all (in_grid self)"]
    by (blast intro: batch_ok_in_grid)
  have l: "length ?out = length (rendered (trace wd)) + nat (iter self)"
    if q: "fst (estimate_pose E self sp img rp dp wd) = Inr (Some p)"
  proof -
    obtain r s' wd' where e: "estimate_pose E self sp img rp dp wd = (r, s', wd')"
      by (cases "estimate_pose E self sp img rp dp wd") auto
    with q have e': "estimate_pose E self sp img rp dp wd = (Inr (Some p), s', wd')" by simp
    from estimate_pose_Some [OF e'] obtain fr loc wd1 loc' where
      p: "prepare E self sp img rp dp wd = (Inr (fr, loc), wd1)"
      and l: "optimization_loop E self fr (nat (iter self)) 0 loc wd1 = (Inr (Next loc'), wd')"
      by blast
    from prepare_readings(2) [of E self sp img rp dp wd] p
    have "rendered (trace wd1) = rendered (trace wd)" by simp
    with loop_Next_rendered [OF l] e' show ?thesis by simp
  qed
  from a b l show ?thesis by blast
qed

theorem batches_of_a_call_witness:
  "choice_contract (stub [(1 / 2, 1 / 2)] (Fin 1))
   \<and> grid_ok (stub_estimator 1 2 ''interest_points'' None 0)
   \<and> detected (stub [(1 / 2, 1 / 2)] (Fin 1)) (stub_estimator 1 2 ''interest_points'' None 0)
        white2x2 world0 = [(0, 0)]
   \<and> list_all (in_grid (stub_estimator 1 2 ''interest_points'' None 0)) [(0, 0)]
   \<and> list_all (batch_ok (stub_estimator 1 2 ''interest_points'' None 0) [(0, 0)])
        (rendered (trace world0))
   \<and> fst (estimate_pose (stub [(1 / 2, 1 / 2)] (Fin 1)) (stub_estimator 1 2 ''interest_points'' None 0)
          eye4 white2x2 eye4 (Some depth2x2) world0) = Inr (Some eye4)
   \<and> rendered (trace (snd (snd (estimate_pose (stub [(1 / 2, 1 / 2)] (Fin 1))
          (stub_estimator 1 2 ''interest_points'' None 0) eye4 white2x2 eye4 (Some depth2x2) world0))))
       = [[(0, 0), (1, 0)]]
   \<and> list_all (batch_ok (stub_estimator 1 2 ''interest_points'' None 0) [(0, 0)])
        (rendered (trace (snd (snd (estimate_pose (stub [(1 / 2, 1 / 2)] (Fin 1))
          (stub_estimator 1 2 ''interest_points'' None 0) eye4 white2x2 eye4 (Some depth2x2) world0)))))
   \<and> list_all (list_all (in_grid (stub_estimator 1 2 ''interest_points'' None 0)))
        (rendered (trace (snd (snd (estimate_pose (stub [(1 / 2, 1 / 2)] (Fin 1))
          (stub_estimator 1 2 ''interest_points'' None 0) eye4 white2x2 eye4 (Some depth2x2) world0)))))
   \<and> length (rendered (trace (snd (snd (estimate_pose (stub [(1 / 2, 1 / 2)] (Fin 1))
          (stub_estimator 1 2 ''interest_points'' None 0) eye4 white2x2 eye4 (Some depth2x2) world0)))))
       = 1
   \<and> grid_ok (stub_estimator 2 2 ''random'' None 0)
   \<and> fst (estimate_pose (stub [] (Fin 1)) (stub_estimator 2 2 ''random'' None 0)
          eye4 white2x2 eye4 (Some depth2x2) world0) = Inr (Some eye4)
   \<and> rendered (trace (snd (snd (estimate_pose (stub [] (Fin 1)) (stub_estimator 2 2 ''random'' None 0)
          eye4 white2x2 eye4 (Some depth2x2) world0)))) = [[(0, 0), (1, 0)], [(0, 0), (1, 0)]]
   \<and> list_all (batch_ok (stub_estimator 2 2 ''random'' None 0) [])
        (rendered (trace (snd (snd (estimate_pose (stub [] (Fin 1)) (stub_estimator 2 2 ''random'' None 0)
          eye4 white2x2 eye4 (Some depth2x2) world0)))))
   \<and> length (rendered (trace (snd (snd (estimate_pose (stub [] (Fin 1))
          (stub_estimator 2 2 ''random'' None 0) eye4 white2x2 eye4 (Some depth2x2) world0))))) = 2"
proof -
  let ?E = "stub [(1 / 2, 1 / 2)] (Fin 1)"
  let ?s = "stub_estimator 1 2 ''interest_points'' None 0"
  let ?run = "estimate_pose ?E ?s eye4 white2x2 eye4 (Some depth2x2) world0"
  let ?E' = "stub [] (Fin 1)"
  let ?s' = "stub_estimator 2 2 ''random'' None 0"
  let ?run' = "estimate_pose ?E' ?s' eye4 white2x2 eye4 (Some depth2x2) world0"
  have dt: "detected ?E ?s white2x2 world0 = [(0, 0)]"
    by (simp add: stub_detected astype_int_def)
  have ig: "list_all (in_grid ?s) [(0, 0)]"
    by (simp add: in_grid_def stub_estimator_fields)
  have inv: "list_all (batch_ok ?s [(0, 0)]) (rendered (trace world0))"
    by (simp add: world0_def)
  have n: "nat (iter ?s) = Suc 0" by (simp add: stub_estimator_fields)
  have tg: "targets \<lparr>start_pose = eye4,
            obs_img_noised = [[(1, 1, 1), (1, 1, 1)], [(1, 1, 1), (1, 1, 1)]],
            obs_img_depth = Some depth2x2, POI = [(0, 0)], interest_regions = [],
            not_POI = [(1, 0), (0, 1), (1, 1)],
            coords_flat = [(0, 0), (1, 0), (0, 1), (1, 1)], refs = pose_angles eye4\<rparr> [(0, 0), (1, 0)]
     = Inr ([(1, 1, 1), (1, 1, 1)], [Fin 1, Fin 1])"
    by (simp add: targets_def gather_def py_index_def depth2x2_def)
  note o = one_iteration_run [OF stub_prepare_points stub_resample_points tg n, of "Fin 1" world0]
  from o(1) have 1: "fst ?run = Inr (Some eye4)" by (simp add: forward_zero)
  from o(2) have 2: "rendered (trace (snd (snd ?run))) = [[(0, 0), (1, 0)]]"
    by (simp add: world0_def)
  have invd: "list_all (batch_ok ?s (detected ?E ?s white2x2 world0)) (rendered (trace world0))"
    by (simp add: world0_def)
  note t = batches_of_a_call [OF stub_choice_contract stub_grid_ok invd, of eye4 eye4
      "Some depth2x2" eye4]
  from t inv dt have 3: "list_all (batch_ok ?s [(0, 0)]) (rendered (trace (snd (snd ?run))))"
    by simp
  from t inv dt ig have 4: "list_all (list_all (in_grid ?s)) (rendered (trace (snd (snd ?run))))"
    by simp
  from t inv dt 1 have 5: "length (rendered (trace (snd (snd ?run)))) = 1"
    by (simp add: world0_def stub_estimator_fields)
  have dt': "detected ?E' ?s' white2x2 world0 = []"
    by (simp add: stub_detected)
  have inv': "list_all (batch_ok ?s' []) (rendered (trace world0))"
    by (simp add: world0_def)
  have m: "(0::nat) < 2" by simp
  from stub_run [OF m, of "[]" "Fin 1"] obtain wd1 where
    e: "?run' = (Inr (Some eye4), ?s'\<lparr>pose_prior := Some eye4\<rparr>, wd1)"
    and r: "rendered (trace wd1) = replicate 2 [(0, 0), (1, 0)]"
    by auto
  from e have 6: "fst ?run' = Inr (Some eye4)" by simp
  from e r have 7: "rendered (trace (snd (snd ?run'))) = [[(0, 0), (1, 0)], [(0, 0), (1, 0)]]"
    by (simp add: numeral_2_eq_2)
  have invd': "list_all (batch_ok ?s' (detected ?E' ?s' white2x2 world0)) (rendered (trace world0))"
    by (simp add: world0_def)
  note t' = batches_of_a_call [OF stub_choice_contract stub_grid_ok invd', of eye4 eye4
      "Some depth2x2" eye4]
  from t' inv' dt' have 8: "list_all (batch_ok ?s' []) (rendered (trace (snd (snd ?run'))))"
    by simp
  from t' inv' dt' 6 have 9: "length (rendered (trace (snd (snd ?run')))) = 2"
    by (simp add: world0_def stub_estimator_fields)
  from stub_choice_contract [of "[(1 / 2, 1 / 2)]" "Fin 1"] stub_grid_ok [of 1 2 "''interest_points''" None 0]
    stub_grid_ok [of 2 2 "''random''" None 0] dt ig inv 1 2 3 4 5 6 7 8 9
  show ?thesis by blast
qed

section \<open>The strategy \<open>interest_points\<close>\<close>

text \<open>
  Claim C6.  Under \<open>interest_points\<close>, with the pools as the phase before the loop builds
  them and a sampler that keeps NumPy's contract: every batch that a resample event
  yields has exactly \<open>batch_size\<close> rows; if there are at least \<open>batch_size\<close> points of
  interest, its rows are drawn from them without repetition; otherwise its first
  \<open>|POI|\<close> rows are the points of interest themselves and the remaining rows are drawn
  without repetition from the grid minus the points of interest.  And the event does
  yield a batch whenever the set of points of interest is not empty and there are enough
  pixels to fill the batch.
\<close>

theorem interest_points_batch:
  assumes c: "choice_contract E" and s: "sampling_strategy self = ''interest_points''"
    and p: "prepare E self sp img rp dp wd0 = (Inr (fr, loc), wd1)"
  shows "(\<forall>b wd'. resample E self fr wd = (Inr (Next b), wd') \<longrightarrow>
            length b = batch_size self
            \<and> (batch_size self \<le> length (POI fr) \<longrightarrow> distinct b \<and> set b \<subseteq> set (POI fr))
            \<and> (length (POI fr) < batch_size self \<longrightarrow>
                  take (length (POI fr)) b = POI fr
                  \<and> distinct (drop (length (POI fr)) b)
                  \<and> set (drop (length (POI fr)) b) \<subseteq> set (concat (coords self)) - set (POI fr)))
      \<and> (POI fr \<noteq> [] \<and> batch_size self \<le> length (POI fr) + length (not_POI fr) \<longrightarrow>
            (\<exists>b wd'. resample E self fr wd = (Inr (Next b), wd')))"
proof (intro conjI allI impI)
  note i = prepare_Inr(2) [OF p s]
  from i have dP: "distinct (POI fr)" by (simp add: detected_def find_POI_distinct)
  from i have dN: "distinct (not_POI fr)" by (simp add: make_not_POI_distinct)
  from i have sN: "set (not_POI fr) = set (concat (coords self)) - set (POI fr)"
    by (simp add: make_not_POI_set)
  fix b wd'
  assume r: "resample E self fr wd = (Inr (Next b), wd')"
  have "length b = batch_size self
      \<and> (batch_size self \<le> length (POI fr) \<longrightarrow> distinct b \<and> set b \<subseteq> set (POI fr))
      \<and> (length (POI fr) < batch_size self \<longrightarrow>
            take (length (POI fr)) b = POI fr
            \<and> distinct (drop (length (POI fr)) b)
            \<and> set (drop (length (POI fr)) b) \<subseteq> set (concat (coords self)) - set (POI fr))"
  proof (cases "batch_size self \<le> length (POI fr)")
    case True
    with r s obtain wd2 where d: "draw_rows E (POI fr) (batch_size self) wd = (Inr b, wd2)"
      by (auto simp: resample_def split: prod.splits sum.splits if_splits)
    from draw_rows_Inr [OF d] have b: "b = map (\<lambda>i. POI fr ! i)
        (fst (random_choice E (length (POI fr)) (batch_size self) (rng wd)))" by simp
    from drawn_ok [OF c True b] dP True show ?thesis by auto
  next
    case False
    with r s obtain rest wd2 where
      d: "draw_rows E (not_POI fr) (batch_size self - length (POI fr)) wd = (Inr rest, wd2)"
      and b: "b = POI fr @ rest"
      by (auto simp: resample_def split: prod.splits sum.splits if_splits)
    from draw_rows_Inr [OF d] have le: "batch_size self - length (POI fr) \<le> length (not_POI fr)"
      and rest: "rest = map (\<lambda>i. not_POI fr ! i)
        (fst (random_choice E (length (not_POI fr)) (batch_size self - length (POI fr)) (rng wd)))"
      by simp_all
    from drawn_ok [OF c le rest] dN sN False b show ?thesis by auto
  qed
  then show "length b = batch_size self"
    and "batch_size self \<le> length (POI fr) \<Longrightarrow> distinct b"
    and "batch_size self \<le> length (POI fr) \<Longrightarrow> set b \<subseteq> set (POI fr)"
    and "length (POI fr) < batch_size self \<Longrightarrow> take (length (POI fr)) b = POI fr"
    and "length (POI fr) < batch_size self \<Longrightarrow> distinct (drop (length (POI fr)) b)"
    and "length (POI fr) < batch_size self \<Longrightarrow>
          set (drop (length (POI fr)) b) \<subseteq> set (concat (coords self)) - set (POI fr)"
    by simp_all
next
  assume a: "POI fr \<noteq> [] \<and> batch_size self \<le> length (POI fr) + length (not_POI fr)"
  then have ne: "POI fr \<noteq> []"
    and feas: "batch_size self \<le> length (POI fr) + length (not_POI fr)" by simp_all
  show "\<exists>b wd'. resample E self fr wd = (Inr (Next b), wd')"
  proof (cases "batch_size self \<le> length (POI fr)")
    case True
    from draw_rows_total [OF True, of E wd] obtain b wd' where
      d: "draw_rows E (POI fr) (batch_size self) wd = (Inr b, wd')" by blast
    from s True ne d have "resample E self fr wd = (Inr (Next b), wd')"
      by (simp add: resample_def)
    then show ?thesis by blast
  next
    case False
    with feas have le: "batch_size self - length (POI fr) \<le> length (not_POI fr)" by simp
    from draw_rows_total [OF le, of E wd] obtain rest wd' where
      d: "draw_rows E (not_POI fr) (batch_size self - length (POI fr)) wd = (Inr rest, wd')"
      by blast
    from s False ne d have "resample E self fr wd = (Inr (Next (POI fr @ rest)), wd')"
      by (simp add: resample_def)
    then show ?thesis by blast
  qed
qed

theorem interest_points_batch_witness:
  "choice_contract (stub [(1 / 2, 1 / 2)] (Fin 1))
   \<and> (\<exists>fr loc wd1. prepare (stub [(1 / 2, 1 / 2)] (Fin 1)) (stub_estimator 2 2 ''interest_points'' None 0)
           eye4 white2x2 eye4 (Some depth2x2) world0 = (Inr (fr, loc), wd1)
        \<and> POI fr = [(0, 0)] \<and> not_POI fr = [(1, 0), (0, 1), (1, 1)]
        \<and> (\<exists>b wd'. resample (stub [(1 / 2, 1 / 2)] (Fin 1)) (stub_estimator 2 2 ''interest_points'' None 0)
               fr wd1 = (Inr (Next b), wd')
             \<and> length b = 2 \<and> take 1 b = [(0, 0)] \<and> distinct (drop 1 b)
             \<and> set (drop 1 b) \<subseteq> {(1, 0), (0, 1), (1, 1)}))
   \<and> (\<exists>fr loc wd1. prepare (stub [(1 / 2, 1 / 2)] (Fin 1)) (stub_estimator 2 1 ''interest_points'' None 0)
           eye4 white2x2 eye4 (Some depth2x2) world0 = (Inr (fr, loc), wd1)
        \<and> (\<exists>b wd'. resample (stub [(1 / 2, 1 / 2)] (Fin 1)) (stub_estimator 2 1 ''interest_points'' None 0)
               fr wd1 = (Inr (Next b), wd')
             \<and> length b = 1 \<and> distinct b \<and> set b \<subseteq> {(0, 0)}))"
proof -
  let ?E = "stub [(1 / 2, 1 / 2)] (Fin 1)"
  let ?s2 = "stub_estimator 2 2 ''interest_points'' None 0"
  let ?s1 = "stub_estimator 2 1 ''interest_points'' None 0"
  let ?fr = "\<lparr>start_pose = eye4,
            obs_img_noised = [[(1, 1, 1), (1, 1, 1)], [(1, 1, 1), (1, 1, 1)]],
            obs_img_depth = Some depth2x2, POI = [(0, 0)], interest_regions = [],
            not_POI = [(1, 0), (0, 1), (1, 1)],
            coords_flat = [(0, 0), (1, 0), (0, 1), (1, 1)], refs = pose_angles eye4\<rparr>"
  let ?loc = "\<lparr>cam_transf = \<lparr>w_param = (0, 0, 0), v_param = (0, 0, 0), theta_param = 0\<rparr>,
            optimizer = 0::nat, lr = 1 / 100, batch = None, pose = None\<rparr>"
  let ?wd = "world0\<lparr>rng := Suc (Suc (Suc (rng world0))),
      trace := trace world0 @ [Ev_normal, Ev_normal, Ev_normal]\<rparr>"
  have p2: "prepare ?E ?s2 eye4 white2x2 eye4 (Some depth2x2) world0 = (Inr (?fr, ?loc), ?wd)"
    by (rule stub_prepare_points)
  have p1: "prepare ?E ?s1 eye4 white2x2 eye4 (Some depth2x2) world0 = (Inr (?fr, ?loc), ?wd)"
    by (rule stub_prepare_points)
  have s2: "sampling_strategy ?s2 = ''interest_points''" by (simp add: stub_estimator_fields)
  have s1: "sampling_strategy ?s1 = ''interest_points''" by (simp add: stub_estimator_fields)
  note t2 = interest_points_batch [OF stub_choice_contract s2 p2, of ?wd]
  note t1 = interest_points_batch [OF stub_choice_contract s1 p1, of ?wd]
  from t2 obtain b2 w2 where r2: "resample ?E ?s2 ?fr ?wd = (Inr (Next b2), w2)"
    by (auto simp: stub_estimator_fields)
  from t2 r2 have q2: "length b2 = 2 \<and> take 1 b2 = [(0, 0)] \<and> distinct (drop 1 b2)
      \<and> set (drop 1 b2) \<subseteq> {(1, 0), (0, 1), (1, 1)}"
    by (auto simp: stub_estimator_fields)
  from t1 obtain b1 w1 where r1: "resample ?E ?s1 ?fr ?wd = (Inr (Next b1), w1)"
    by (auto simp: stub_estimator_fields)
  from t1 r1 have q1: "length b1 = 1 \<and> distinct b1 \<and> set b1 \<subseteq> {(0, 0)}"
    by (auto simp: stub_estimator_fields)
  from r2 q2 have a: "\<exists>b wd'. resample ?E ?s2 ?fr ?wd = (Inr (Next b), wd')
             \<and> length b = 2 \<and> take 1 b = [(0, 0)] \<and> distinct (drop 1 b)
             \<and> set (drop 1 b) \<subseteq> {(1, 0), (0, 1), (1, 1)}"
    by blast
  from r1 q1 have b: "\<exists>b wd'. resample ?E ?s1 ?fr ?wd = (Inr (Next b), wd')
             \<and> length b = 1 \<and> distinct b \<and> set b \<subseteq> {(0, 0)}"
    by blast
  from a p2 have a': "\<exists>fr loc wd1. prepare ?E ?s2 eye4 white2x2 eye4 (Some depth2x2) world0
        = (Inr (fr, loc), wd1)
        \<and> POI fr = [(0, 0)] \<and> not_POI fr = [(1, 0), (0, 1), (1, 1)]
        \<and> (\<exists>b wd'. resample ?E ?s2 fr wd1 = (Inr (Next b), wd')
             \<and> length b = 2 \<and> take 1 b = [(0, 0)] \<and> distinct (drop 1 b)
             \<and> set (drop 1 b) \<subseteq> {(1, 0), (0, 1), (1, 1)})"
    by (intro exI [of _ ?fr] exI [of _ ?loc] exI [of _ ?wd]) simp
  from b p1 have b': "\<exists>fr loc wd1. prepare ?E ?s1 eye4 white2x2 eye4 (Some depth2x2) world0
        = (Inr (fr, loc), wd1)
        \<and> (\<exists>b wd'. resample ?E ?s1 fr wd1 = (Inr (Next b), wd')
             \<and> length b = 1 \<and> distinct b \<and> set b \<subseteq> {(0, 0)})"
    by (intro exI [of _ ?fr] exI [of _ ?loc] exI [of _ ?wd]) simp
  from stub_choice_contract a' b' show ?thesis by blast
qed

section \<open>The brightness shift works on an image divided by 255 twice\<close>

lemma values_of_map_value: "values_of (map_value f img) = map f (values_of img)"
  by (induction img) (auto simp: values_of_def map_value_def)

lemma values_of_hsv:
  assumes "value_is_max E"
  shows "values_of (map (map (cvt_RGB2HSV E)) img) =
     concat (map (map (\<lambda>(r, g, b). max r (max g b))) img)"
proof -
  from assms have v: "\<And>p. (case cvt_RGB2HSV E p of (h, s, v) \<Rightarrow> v) = (case p of (r, g, b) \<Rightarrow> max r (max g b))"
    by (auto simp: value_is_max_def split: prod.splits) (metis snd_conv)
  show ?thesis
    by (simp add: values_of_def comp_def v)
qed

lemma nested_all_map:
  assumes "\<And>p. Q p \<Longrightarrow> P (f p)" and "list_all (list_all Q) img"
  shows "list_all (list_all P) (map (map f) img)"
  using assms unfolding list_all_iff by auto

lemma div255_within:
  assumes "0 \<le> c" and "channels_within 0 c img"
  shows "channels_within 0 (c / 255) (div255 img)"
  unfolding channels_within_def div255_def
proof (rule nested_all_map [where Q = "\<lambda>(r, g, b). 0 \<le> r \<and> r \<le> c \<and> 0 \<le> g \<and> g \<le> c \<and> 0 \<le> b \<and> b \<le> c"])
  fix p :: rgb
  assume "case p of (r, g, b) \<Rightarrow> 0 \<le> r \<and> r \<le> c \<and> 0 \<le> g \<and> g \<le> c \<and> 0 \<le> b \<and> b \<le> c"
  then show "case case p of (r, g, b) \<Rightarrow> (r / 255, g / 255, b / 255) of
      (r, g, b) \<Rightarrow> 0 \<le> r \<and> r \<le> c / 255 \<and> 0 \<le> g \<and> g \<le> c / 255 \<and> 0 \<le> b \<and> b \<le> c / 255"
    by (cases p) (simp add: divide_right_mono)
next
  from assms(2) show "list_all (list_all (\<lambda>(r, g, b). 0 \<le> r \<and> r \<le> c \<and> 0 \<le> g \<and> g \<le> c \<and> 0 \<le> b \<and> b \<le> c)) img"
    by (simp add: channels_within_def)
qed

lemma div255_twice_within:
  assumes "channels_within 0 255 img"
  shows "channels_within 0 (1 / 255) (div255 (div255 img))"
proof -
  from div255_within [OF _ assms] have "channels_within 0 1 (div255 img)" by simp
  from div255_within [OF _ this] show ?thesis by simp
qed

lemma max_values_small:
  assumes "channels_within 0 c img"
  shows "list_all (\<lambda>v. 0 \<le> v \<and> v \<le> c) (concat (map (map (\<lambda>(r, g, b). max r (max g b))) img))"
  using assms unfolding channels_within_def list_all_iff by fastforce

lemma darken_small:
  assumes "delta < 0" and "list_all (\<lambda>v. 0 \<le> v \<and> v < \<bar>delta\<bar>) (values_of img)"
  shows "list_all (\<lambda>v. v = 0) (values_of (darken delta img))"
  using assms by (auto simp: darken_def Let_def values_of_map_value list_all_iff)

lemma shifted_hsv_dark:
  assumes m: "value_is_max E" and w: "channels_within 0 255 obs_img"
    and d: "delta_brightness self < - (1 / 255)"
  shows "list_all (\<lambda>v. v = 0) (values_of (shifted_hsv E self (div255 obs_img)))"
proof -
  let ?X = "div255 (div255 obs_img)"
  from d have neg: "delta_brightness self < 0" by simp
  from d have big: "1 / 255 < \<bar>delta_brightness self\<bar>" by simp
  from max_values_small [OF div255_twice_within [OF w]]
  have "list_all (\<lambda>v. 0 \<le> v \<and> v \<le> 1 / 255)
      (concat (map (map (\<lambda>(r, g, b). max r (max g b))) ?X))" .
  with big have "list_all (\<lambda>v. 0 \<le> v \<and> v < \<bar>delta_brightness self\<bar>)
      (values_of (map (map (cvt_RGB2HSV E)) ?X))"
    unfolding values_of_hsv [OF m] list_all_iff by fastforce
  from darken_small [OF neg this] neg show ?thesis
    by (simp add: shifted_hsv_def)
qed

lemma preprocess_shifted:
  assumes "delta_brightness self \<noteq> 0"
  shows "preprocess E self obs_img wd =
      apply_noise E self (map (map (cvt_HSV2RGB E)) (shifted_hsv E self (div255 obs_img))) wd"
  using assms by (simp add: preprocess_def change_brightness_def)

lemma stub_value_is_max: "value_is_max (stub kps d)"
  by (simp add: value_is_max_def stub_fields)

lemma white_within: "channels_within 0 255 white2x2"
  by (simp add: channels_within_def white2x2_def)

lemma stub_preprocess_dark:
  "preprocess (stub kps d) (stub_estimator n bs s None (- (1 / 2))) white2x2 wd =
     ([[(0, 0, 0), (0, 0, 0)], [(0, 0, 0), (0, 0, 0)]], wd)"
  by (simp add: preprocess_def change_brightness_def shifted_hsv_def darken_def map_value_def
      apply_noise_def div255_def white2x2_def stub_estimator_fields stub_fields)

lemma darken_within:
  assumes "delta < 0" and "list_all (\<lambda>v. 0 \<le> v \<and> v \<le> c) (values_of img)"
  shows "list_all (\<lambda>v. 0 \<le> v \<and> v \<le> c) (values_of (darken delta img))"
  using assms by (auto simp: darken_def Let_def values_of_map_value list_all_iff)

lemma brighten_above:
  assumes "0 < delta" and "list_all (\<lambda>v. 0 \<le> v) (values_of img)"
  shows "list_all (\<lambda>v. min delta 1 \<le> v) (values_of (brighten delta img))"
  using assms by (auto simp: brighten_def Let_def values_of_map_value list_all_iff)

lemma hsv_values_within:
  assumes m: "value_is_max E" and w: "channels_within 0 255 obs_img"
  shows "list_all (\<lambda>v. 0 \<le> v \<and> v \<le> 1 / 255)
      (values_of (map (map (cvt_RGB2HSV E)) (div255 (div255 obs_img))))"
  using max_values_small [OF div255_twice_within [OF w]]
  unfolding values_of_hsv [OF m] .

lemma shifted_hsv_negative:
  assumes m: "value_is_max E" and w: "channels_within 0 255 obs_img"
    and d: "delta_brightness self < 0"
  shows "list_all (\<lambda>v. 0 \<le> v \<and> v \<le> 1 / 255) (values_of (shifted_hsv E self (div255 obs_img)))"
  using darken_within [OF d hsv_values_within [OF m w]] d
  by (simp add: shifted_hsv_def)

lemma shifted_hsv_positive:
  assumes m: "value_is_max E" and w: "channels_within 0 255 obs_img"
    and d: "0 < delta_brightness self"
  shows "list_all (\<lambda>v. min (delta_brightness self) 1 \<le> v)
      (values_of (shifted_hsv E self (div255 obs_img)))"
proof -
  from hsv_values_within [OF m w]
  have "list_all (\<lambda>v. 0 \<le> v) (values_of (map (map (cvt_RGB2HSV E)) (div255 (div255 obs_img))))"
    by (simp add: list_all_iff)
  from brighten_above [OF d this] d show ?thesis
    by (simp add: shifted_hsv_def)
qed

lemma dark_pixel:
  assumes m: "value_is_max E" and su: "saturation_in_unit E" and bv: "rgb_below_value E"
    and d: "delta < 0"
    and p: "case p of (r, g, b) \<Rightarrow> 0 \<le> r \<and> r \<le> c \<and> 0 \<le> g \<and> g \<le> c \<and> 0 \<le> b \<and> b \<le> c"
  shows "case cvt_HSV2RGB E (case cvt_RGB2HSV E p of (h, s, v) \<Rightarrow>
            (h, s, if \<bar>delta\<bar> \<le> (if v < \<bar>delta\<bar> then 0 else v)
                   then (if v < \<bar>delta\<bar> then 0 else v) + delta
                   else (if v < \<bar>delta\<bar> then 0 else v))) of
         (r, g, b) \<Rightarrow> 0 \<le> r \<and> r \<le> c \<and> 0 \<le> g \<and> g \<le> c \<and> 0 \<le> b \<and> b \<le> c"
proof -
  obtain r g b where pe: "p = (r, g, b)" by (cases p)
  obtain h s v where hs: "cvt_RGB2HSV E (r, g, b) = (h, s, v)" by (cases "cvt_RGB2HSV E (r, g, b)")
  from p pe have rgb: "0 \<le> r" "r \<le> c" "0 \<le> g" "g \<le> c" "0 \<le> b" "b \<le> c" by simp_all
  note m' = m [unfolded value_is_max_def, rule_format, where r = r and g = g and b = b]
  from m' hs have v: "v = max r (max g b)" by simp
  with rgb have vb: "0 \<le> v" "v \<le> c" by simp_all
  note su' = su [unfolded saturation_in_unit_def, rule_format, where r = r and g = g and b = b]
  from su' rgb hs have s: "0 \<le> s" "s \<le> 1" by simp_all
  define v2 where "v2 = (if \<bar>delta\<bar> \<le> (if v < \<bar>delta\<bar> then 0 else v)
                   then (if v < \<bar>delta\<bar> then 0 else v) + delta
                   else (if v < \<bar>delta\<bar> then 0 else v))"
  have v2: "0 \<le> v2" "v2 \<le> c"
  proof -
    show "0 \<le> v2"
    proof (cases "v < \<bar>delta\<bar>")
      case True
      with d show ?thesis by (simp add: v2_def)
    next
      case False
      with d show ?thesis by (simp add: v2_def)
    qed
    show "v2 \<le> c"
    proof (cases "v < \<bar>delta\<bar>")
      case True
      with d vb show ?thesis by (simp add: v2_def)
    next
      case False
      with d vb show ?thesis by (simp add: v2_def)
    qed
  qed
  obtain r' g' b' where o: "cvt_HSV2RGB E (h, s, v2) = (r', g', b')"
    by (cases "cvt_HSV2RGB E (h, s, v2)")
  note bv' = bv [unfolded rgb_below_value_def, rule_format, where h = h and s = s and v = v2]
  from bv' s v2 o have "0 \<le> r' \<and> r' \<le> v2 \<and> 0 \<le> g' \<and> g' \<le> v2 \<and> 0 \<le> b' \<and> b' \<le> v2"
    by simp
  with v2 have "0 \<le> r' \<and> r' \<le> c \<and> 0 \<le> g' \<and> g' \<le> c \<and> 0 \<le> b' \<and> b' \<le> c"
    by simp
  with pe hs o show ?thesis by (simp add: v2_def)
qed

lemma darkened_within:
  assumes m: "value_is_max E" and su: "saturation_in_unit E" and bv: "rgb_below_value E"
    and w: "channels_within 0 255 obs_img" and d: "delta_brightness self < 0"
  shows "channels_within 0 (1 / 255)
      (map (map (cvt_HSV2RGB E)) (shifted_hsv E self (div255 obs_img)))"
proof -
  let ?F = "\<lambda>p. cvt_HSV2RGB E (case cvt_RGB2HSV E p of (h, s, v) \<Rightarrow>
            (h, s, if \<bar>delta_brightness self\<bar> \<le> (if v < \<bar>delta_brightness self\<bar> then 0 else v)
                   then (if v < \<bar>delta_brightness self\<bar> then 0 else v) + delta_brightness self
                   else (if v < \<bar>delta_brightness self\<bar> then 0 else v)))"
  have eq: "map (map (cvt_HSV2RGB E)) (shifted_hsv E self (div255 obs_img))
      = map (map ?F) (div255 (div255 obs_img))"
    using d by (simp add: shifted_hsv_def darken_def map_value_def Let_def comp_def case_prod_beta)
  from div255_twice_within [OF w]
  have q: "list_all (list_all (\<lambda>(r, g, b). 0 \<le> r \<and> r \<le> 1 / 255 \<and> 0 \<le> g \<and> g \<le> 1 / 255
      \<and> 0 \<le> b \<and> b \<le> 1 / 255)) (div255 (div255 obs_img))"
    by (simp add: channels_within_def)
  show ?thesis
    unfolding eq channels_within_def
    by (rule nested_all_map [OF _ q]) (rule dark_pixel [OF m su bv d])
qed

lemma py_index_Some: "py_index n i = Some k \<Longrightarrow> k < n"
  by (auto simp: py_index_def split: if_splits)

lemma those_Some: "those xs = Some ys \<Longrightarrow> xs = map Some ys"
  by (induction xs arbitrary: ys) (auto split: option.splits)

lemma gather_subset:
  assumes "gather img b = Some ts"
  shows "set ts \<subseteq> \<Union> (set ` set img)"
proof
  fix t
  assume t: "t \<in> set ts"
  from assms have "map (\<lambda>(x, y).
        (case py_index (length img) y of
           None \<Rightarrow> None
         | Some i \<Rightarrow>
             (case py_index (length (img ! i)) x of
                None \<Rightarrow> None
              | Some j \<Rightarrow> Some (img ! i ! j)))) b = map Some ts"
    unfolding gather_def by (rule those_Some)
  with t have "Some t \<in> set (map (\<lambda>(x, y).
        (case py_index (length img) y of
           None \<Rightarrow> None
         | Some i \<Rightarrow>
             (case py_index (length (img ! i)) x of
                None \<Rightarrow> None
              | Some j \<Rightarrow> Some (img ! i ! j)))) b)"
    by simp
  then obtain x y i j where "py_index (length img) y = Some i"
    and "py_index (length (img ! i)) x = Some j" and "t = img ! i ! j"
    by (auto split: option.splits)
  then have "i < length img" and "j < length (img ! i)" and e: "t = img ! i ! j"
    by (auto dest: py_index_Some)
  then have "img ! i \<in> set img" and "img ! i ! j \<in> set (img ! i)"
    by simp_all
  with e show "t \<in> \<Union> (set ` set img)" by blast
qed

lemma all_of_union:
  assumes "set ts \<subseteq> \<Union> (set ` set img)" and "list_all (list_all P) img"
  shows "list_all P ts"
  using assms unfolding list_all_iff by blast

lemma dark_targets:
  assumes m: "value_is_max E" and su: "saturation_in_unit E" and bv: "rgb_below_value E"
    and w: "channels_within 0 255 obs_img" and d: "delta_brightness self < 0"
    and nn: "\<not> noisy self"
    and p: "prepare E self sp obs_img rp dp wd = (Inr (fr, loc), wd1)"
    and t: "targets fr b = Inr (target_s, depth_s)"
  shows "channels_within 0 (1 / 255) [target_s]"
proof -
  from d have nz: "delta_brightness self \<noteq> 0" by simp
  from nn have "fst (preprocess E self obs_img wd)
      = map (map (cvt_HSV2RGB E)) (shifted_hsv E self (div255 obs_img))"
    by (simp add: preprocess_shifted [OF nz] apply_noise_def noisy_def)
  with prepare_Inr(6) [OF p] darkened_within [OF m su bv w d]
  have c: "channels_within 0 (1 / 255) (obs_img_noised fr)" by simp
  from t have "gather (obs_img_noised fr) b = Some target_s"
    by (auto simp: targets_def split: option.splits)
  from all_of_union [OF gather_subset [OF this] c [unfolded channels_within_def]]
  show ?thesis
    unfolding channels_within_def by simp
qed

lemma stub_saturation_in_unit: "saturation_in_unit (stub kps d)"
  by (simp add: saturation_in_unit_def stub_fields)

lemma stub_rgb_below_value: "rgb_below_value (stub kps d)"
  by (simp add: rgb_below_value_def stub_fields)

lemma stub_preprocess_dim:
  "preprocess (stub kps d) (stub_estimator n bs s None (- (1 / 510))) white2x2 wd =
     ([[(1 / 510, 1 / 510, 1 / 510), (1 / 510, 1 / 510, 1 / 510)],
       [(1 / 510, 1 / 510, 1 / 510), (1 / 510, 1 / 510, 1 / 510)]], wd)"
  by (simp add: preprocess_def change_brightness_def shifted_hsv_def darken_def map_value_def
      apply_noise_def div255_def white2x2_def stub_estimator_fields stub_fields)

lemma stub_preprocess_bright:
  "preprocess (stub kps d) (stub_estimator n bs s None (1 / 2)) white2x2 wd =
     ([[(257 / 510, 257 / 510, 257 / 510), (257 / 510, 257 / 510, 257 / 510)],
       [(257 / 510, 257 / 510, 257 / 510), (257 / 510, 257 / 510, 257 / 510)]], wd)"
  by (simp add: preprocess_def change_brightness_def shifted_hsv_def brighten_def map_value_def
      apply_noise_def div255_def white2x2_def stub_estimator_fields stub_fields)

lemma stub_prepare_shifted:
  "prepare (stub kps d) (stub_estimator n bs ''random'' None dl) eye4 white2x2 eye4 (Some depth2x2) wd =
     (Inr (stub_frame\<lparr>obs_img_noised :=
              fst (preprocess (stub kps d) (stub_estimator n bs ''random'' None dl) white2x2 wd)\<rparr>,
           \<lparr>cam_transf = \<lparr>w_param = (0, 0, 0), v_param = (0, 0, 0), theta_param = 0\<rparr>,
            optimizer = 0, lr = 1 / 100, batch = None, pose = None\<rparr>),
      (snd (preprocess (stub kps d) (stub_estimator n bs ''random'' None dl) white2x2 wd))
        \<lparr>rng := Suc (Suc (Suc (rng (snd (preprocess (stub kps d)
            (stub_estimator n bs ''random'' None dl) white2x2 wd))))),
         trace := trace (snd (preprocess (stub kps d)
            (stub_estimator n bs ''random'' None dl) white2x2 wd)) @ [Ev_normal, Ev_normal, Ev_normal]\<rparr>)"
  by (simp add: prepare_random stub_estimator_fields stub_new_camera_transf
      stub_fields stub_frame_def)


lemma stub_targets_shifted:
  "targets (stub_frame\<lparr>obs_img_noised := [[c, c], [c, c]]\<rparr>) [(0, 0), (1, 0)]
     = Inr ([c, c], [Fin 1, Fin 1])"
  by (simp add: targets_def gather_def py_index_def stub_frame_def depth2x2_def)

lemma stub_resample_shifted:
  "resample (stub kps d) (stub_estimator n 2 ''random'' nz dl) (stub_frame\<lparr>obs_img_noised := img\<rparr>) wd =
     (Inr (Next [(0, 0), (1, 0)]),
      wd\<lparr>rng := Suc (rng wd), trace := trace wd @ [Ev_choice 4 2]\<rparr>)"
  by (simp add: resample_def draw_rows_def np_random_choice_def stub_estimator_fields stub_fields
      stub_frame_def take_2_upt_4)

text \<open>
  Claim C4, as the specification states it, fails: it puts every supervision target of a
  call with a brightness shift in \<open>[0, 1/255]\<close>.  On the stub with a shift of \<open>+1/2\<close> and
  the white image, the value channel after the shift is \<open>1/255 + 1/2\<close>, and a call that
  returns a pose takes its targets from an image whose channels are all \<open>257/510\<close>.
  (On grey pixels, the only ones of this image, the conversions of the stub are those of
  OpenCV: hue and saturation 0, and the value in all three colour channels.)
\<close>

theorem bright_targets_counterexample:
  "delta_brightness (stub_estimator 1 2 ''random'' None (1 / 2)) \<noteq> 0
   \<and> channels_within 0 255 white2x2
   \<and> fst (prepare (stub [] (Fin 1)) (stub_estimator 1 2 ''random'' None (1 / 2))
          eye4 white2x2 eye4 (Some depth2x2) world0)
       = Inr (stub_frame\<lparr>obs_img_noised :=
                [[(257 / 510, 257 / 510, 257 / 510), (257 / 510, 257 / 510, 257 / 510)],
                 [(257 / 510, 257 / 510, 257 / 510), (257 / 510, 257 / 510, 257 / 510)]]\<rparr>,
              \<lparr>cam_transf = \<lparr>w_param = (0, 0, 0), v_param = (0, 0, 0), theta_param = 0\<rparr>,
               optimizer = 0, lr = 1 / 100, batch = None, pose = None\<rparr>)
   \<and> fst (resample (stub [] (Fin 1)) (stub_estimator 1 2 ''random'' None (1 / 2))
          (stub_frame\<lparr>obs_img_noised :=
                [[(257 / 510, 257 / 510, 257 / 510), (257 / 510, 257 / 510, 257 / 510)],
                 [(257 / 510, 257 / 510, 257 / 510), (257 / 510, 257 / 510, 257 / 510)]]\<rparr>)
          (snd (prepare (stub [] (Fin 1)) (stub_estimator 1 2 ''random'' None (1 / 2))
          eye4 white2x2 eye4 (Some depth2x2) world0)))
       = Inr (Next [(0, 0), (1, 0)])
   \<and> targets (stub_frame\<lparr>obs_img_noised :=
                [[(257 / 510, 257 / 510, 257 / 510), (257 / 510, 257 / 510, 257 / 510)],
                 [(257 / 510, 257 / 510, 257 / 510), (257 / 510, 257 / 510, 257 / 510)]]\<rparr>)
          [(0, 0), (1, 0)]
       = Inr ([(257 / 510, 257 / 510, 257 / 510), (257 / 510, 257 / 510, 257 / 510)], [Fin 1, Fin 1])
   \<and> \<not> channels_within 0 (1 / 255)
          [[(257 / 510, 257 / 510, 257 / 510), (257 / 510, 257 / 510, 257 / 510)]]
   \<and> fst (estimate_pose (stub [] (Fin 1)) (stub_estimator 1 2 ''random'' None (1 / 2))
          eye4 white2x2 eye4 (Some depth2x2) world0) = Inr (Some eye4)"
proof -
  let ?E = "stub [] (Fin 1)"
  let ?s = "stub_estimator 1 2 ''random'' None (1 / 2)"
  let ?fr = "stub_frame\<lparr>obs_img_noised :=
                [[(257 / 510, 257 / 510, 257 / 510), (257 / 510, 257 / 510, 257 / 510)],
                 [(257 / 510, 257 / 510, 257 / 510), (257 / 510, 257 / 510, 257 / 510)]]\<rparr>"
  let ?loc = "\<lparr>cam_transf = \<lparr>w_param = (0, 0, 0), v_param = (0, 0, 0), theta_param = 0\<rparr>,
               optimizer = 0::nat, lr = 1 / 100, batch = None, pose = None\<rparr>"
  let ?wd = "world0\<lparr>rng := Suc (Suc (Suc (rng world0))),
      trace := trace world0 @ [Ev_normal, Ev_normal, Ev_normal]\<rparr>"
  have 1: "delta_brightness ?s \<noteq> 0" by (simp add: stub_estimator_fields)
  have p: "prepare ?E ?s eye4 white2x2 eye4 (Some depth2x2) world0 = (Inr (?fr, ?loc), ?wd)"
    by (simp add: stub_prepare_shifted stub_preprocess_bright)
  have r: "resample ?E ?s ?fr ?wd = (Inr (Next [(0, 0), (1, 0)]),
      ?wd\<lparr>rng := Suc (rng ?wd), trace := trace ?wd @ [Ev_choice 4 2]\<rparr>)"
    by (rule stub_resample_shifted)
  have t: "targets ?fr [(0, 0), (1, 0)]
       = Inr ([(257 / 510, 257 / 510, 257 / 510), (257 / 510, 257 / 510, 257 / 510)], [Fin 1, Fin 1])"
    by (rule stub_targets_shifted)
  have 5: "\<not> channels_within 0 (1 / 255)
          [[(257 / 510, 257 / 510, 257 / 510), (257 / 510, 257 / 510, 257 / 510)]]"
    by (simp add: channels_within_def)
  have n: "nat (iter ?s) = Suc 0" by (simp add: stub_estimator_fields)
  from one_iteration_run(1) [OF p r t n]
  have 6: "fst (estimate_pose ?E ?s eye4 white2x2 eye4 (Some depth2x2) world0) = Inr (Some eye4)"
    by (simp add: forward_zero stub_frame_def)
  from p have 2: "fst (prepare ?E ?s eye4 white2x2 eye4 (Some depth2x2) world0) = Inr (?fr, ?loc)"
    by simp
  from p r have 3: "fst (resample ?E ?s ?fr (snd (prepare ?E ?s eye4 white2x2 eye4 (Some depth2x2) world0)))
      = Inr (Next [(0, 0), (1, 0)])"
    by simp
  from 1 white_within 2 3 t 5 6 show ?thesis by blast
qed

text \<open>
  Claim C4, amended.  For every call with a brightness shift that is not zero, the image
  normalised at line 118 is divided by 255 once more at line 122: the shift takes its
  input from the image divided by 255 twice, whose channels lie in \<open>[0, 1/255]\<close> for an
  input with channels in \<open>[0, 255]\<close>, and the image that supervises the loss is the
  noised result of that shift.  Where the value channel is the largest colour channel
  (as OpenCV documents it): under a negative shift the value channel stays in
  \<open>[0, 1/255]\<close>, and every shift below \<open>-1/255\<close> sets the whole value channel to 0; under
  a positive shift \<open>delta\<close> the whole value channel is at least \<open>min delta 1\<close>, so it
  leaves \<open>[0, 1/255]\<close> as soon as \<open>delta\<close> exceeds \<open>1/255\<close>.  With the documented ranges of
  the two colour conversions, a negative shift and no noise, every supervision target of
  an iteration has its channels in \<open>[0, 1/255]\<close>.
\<close>

theorem brightness_shift_ranges:
  "(delta_brightness self \<noteq> 0 \<longrightarrow>
      preprocess E self obs_img wd =
        apply_noise E self (map (map (cvt_HSV2RGB E)) (shifted_hsv E self (div255 obs_img))) wd
      \<and> shifted_hsv E self (div255 obs_img) =
          (if delta_brightness self < 0 then darken (delta_brightness self)
           else brighten (delta_brightness self))
            (map (map (cvt_RGB2HSV E)) (div255 (div255 obs_img))))
   \<and> (channels_within 0 255 obs_img \<longrightarrow> channels_within 0 (1 / 255) (div255 (div255 obs_img)))
   \<and> (value_is_max E \<and> channels_within 0 255 obs_img \<and> delta_brightness self < 0 \<longrightarrow>
        list_all (\<lambda>v. 0 \<le> v \<and> v \<le> 1 / 255) (values_of (shifted_hsv E self (div255 obs_img))))
   \<and> (value_is_max E \<and> channels_within 0 255 obs_img \<and> delta_brightness self < - (1 / 255) \<longrightarrow>
        list_all (\<lambda>v. v = 0) (values_of (shifted_hsv E self (div255 obs_img))))
   \<and> (value_is_max E \<and> channels_within 0 255 obs_img \<and> 0 < delta_brightness self \<longrightarrow>
        list_all (\<lambda>v. min (delta_brightness self) 1 \<le> v)
          (values_of (shifted_hsv E self (div255 obs_img))))
   \<and> (prepare E self sp obs_img rp dp wd = (Inr (fr, loc), wd1) \<longrightarrow>
        obs_img_noised fr = fst (preprocess E self obs_img wd)
        \<and> (value_is_max E \<and> saturation_in_unit E \<and> rgb_below_value E
            \<and> channels_within 0 255 obs_img \<and> delta_brightness self < 0 \<and> \<not> noisy self
            \<and> targets fr b = Inr (target_s, depth_s) \<longrightarrow>
              channels_within 0 (1 / 255) [target_s]))"
proof (intro conjI impI)
  assume "delta_brightness self \<noteq> 0"
  then show "preprocess E self obs_img wd =
        apply_noise E self (map (map (cvt_HSV2RGB E)) (shifted_hsv E self (div255 obs_img))) wd"
    by (rule preprocess_shifted)
next
  show "shifted_hsv E self (div255 obs_img) =
          (if delta_brightness self < 0 then darken (delta_brightness self)
           else brighten (delta_brightness self))
            (map (map (cvt_RGB2HSV E)) (div255 (div255 obs_img)))"
    by (simp add: shifted_hsv_def)
next
  assume "channels_within 0 255 obs_img"
  then show "channels_within 0 (1 / 255) (div255 (div255 obs_img))"
    by (rule div255_twice_within)
next
  assume "value_is_max E \<and> channels_within 0 255 obs_img \<and> delta_brightness self < 0"
  then have m: "value_is_max E" and w: "channels_within 0 255 obs_img"
    and d: "delta_brightness self < 0"
    by simp_all
  show "list_all (\<lambda>v. 0 \<le> v \<and> v \<le> 1 / 255) (values_of (shifted_hsv E self (div255 obs_img)))"
    by (rule shifted_hsv_negative [OF m w d])
next
  assume "value_is_max E \<and> channels_within 0 255 obs_img \<and> delta_brightness self < - (1 / 255)"
  then show "list_all (\<lambda>v. v = 0) (values_of (shifted_hsv E self (div255 obs_img)))"
    by (simp add: shifted_hsv_dark)
next
  assume "value_is_max E \<and> channels_within 0 255 obs_img \<and> 0 < delta_brightness self"
  then show "list_all (\<lambda>v. min (delta_brightness self) 1 \<le> v)
      (values_of (shifted_hsv E self (div255 obs_img)))"
    by (simp add: shifted_hsv_positive)
next
  assume "prepare E self sp obs_img rp dp wd = (Inr (fr, loc), wd1)"
  then show "obs_img_noised fr = fst (preprocess E self obs_img wd)"
    by (rule prepare_Inr(6))
next
  assume p: "prepare E self sp obs_img rp dp wd = (Inr (fr, loc), wd1)"
    and a: "value_is_max E \<and> saturation_in_unit E \<and> rgb_below_value E
            \<and> channels_within 0 255 obs_img \<and> delta_brightness self < 0 \<and> \<not> noisy self
            \<and> targets fr b = Inr (target_s, depth_s)"
  from a have m: "value_is_max E" and su: "saturation_in_unit E" and bv: "rgb_below_value E"
    and w: "channels_within 0 255 obs_img" and d: "delta_brightness self < 0"
    and nn: "\<not> noisy self" and t: "targets fr b = Inr (target_s, depth_s)"
    by simp_all
  show "channels_within 0 (1 / 255) [target_s]"
    by (rule dark_targets [OF m su bv w d nn p t])
qed

theorem brightness_shift_ranges_witness:
  "value_is_max (stub [] (Fin 1)) \<and> saturation_in_unit (stub [] (Fin 1))
   \<and> rgb_below_value (stub [] (Fin 1)) \<and> channels_within 0 255 white2x2
   \<and> channels_within 0 (1 / 255) (div255 (div255 white2x2))
   \<and> delta_brightness (stub_estimator 1 2 ''random'' None (- (1 / 2))) < - (1 / 255)
   \<and> list_all (\<lambda>v. v = 0) (values_of (shifted_hsv (stub [] (Fin 1))
          (stub_estimator 1 2 ''random'' None (- (1 / 2))) (div255 white2x2)))
   \<and> fst (preprocess (stub [] (Fin 1)) (stub_estimator 1 2 ''random'' None (- (1 / 2))) white2x2 world0)
       = [[(0, 0, 0), (0, 0, 0)], [(0, 0, 0), (0, 0, 0)]]
   \<and> delta_brightness (stub_estimator 1 2 ''random'' None (- (1 / 510))) < 0
   \<and> \<not> noisy (stub_estimator 1 2 ''random'' None (- (1 / 510)))
   \<and> list_all (\<lambda>v. 0 \<le> v \<and> v \<le> 1 / 255) (values_of (shifted_hsv (stub [] (Fin 1))
          (stub_estimator 1 2 ''random'' None (- (1 / 510))) (div255 white2x2)))
   \<and> fst (prepare (stub [] (Fin 1)) (stub_estimator 1 2 ''random'' None (- (1 / 510)))
          eye4 white2x2 eye4 (Some depth2x2) world0)
       = Inr (stub_frame\<lparr>obs_img_noised :=
                [[(1 / 510, 1 / 510, 1 / 510), (1 / 510, 1 / 510, 1 / 510)],
                 [(1 / 510, 1 / 510, 1 / 510), (1 / 510, 1 / 510, 1 / 510)]]\<rparr>,
              \<lparr>cam_transf = \<lparr>w_param = (0, 0, 0), v_param = (0, 0, 0), theta_param = 0\<rparr>,
               optimizer = 0, lr = 1 / 100, batch = None, pose = None\<rparr>)
   \<and> targets (stub_frame\<lparr>obs_img_noised :=
                [[(1 / 510, 1 / 510, 1 / 510), (1 / 510, 1 / 510, 1 / 510)],
                 [(1 / 510, 1 / 510, 1 / 510), (1 / 510, 1 / 510, 1 / 510)]]\<rparr>) [(0, 0), (1, 0)]
       = Inr ([(1 / 510, 1 / 510, 1 / 510), (1 / 510, 1 / 510, 1 / 510)], [Fin 1, Fin 1])
   \<and> channels_within 0 (1 / 255) [[(1 / 510, 1 / 510, 1 / 510), (1 / 510, 1 / 510, 1 / 510)]]
   \<and> 0 < delta_brightness (stub_estimator 1 2 ''random'' None (1 / 2))
   \<and> list_all (\<lambda>v. 1 / 2 \<le> v) (values_of (shifted_hsv (stub [] (Fin 1))
          (stub_estimator 1 2 ''random'' None (1 / 2)) (div255 white2x2)))"
proof -
  let ?E = "stub [] (Fin 1)"
  let ?s = "stub_estimator 1 2 ''random'' None (- (1 / 2))"
  let ?s2 = "stub_estimator 1 2 ''random'' None (- (1 / 510))"
  let ?s3 = "stub_estimator 1 2 ''random'' None (1 / 2)"
  let ?fr = "stub_frame\<lparr>obs_img_noised :=
                [[(1 / 510, 1 / 510, 1 / 510), (1 / 510, 1 / 510, 1 / 510)],
                 [(1 / 510, 1 / 510, 1 / 510), (1 / 510, 1 / 510, 1 / 510)]]\<rparr>"
  let ?loc = "\<lparr>cam_transf = \<lparr>w_param = (0, 0, 0), v_param = (0, 0, 0), theta_param = 0\<rparr>,
               optimizer = 0::nat, lr = 1 / 100, batch = None, pose = None\<rparr>"
  let ?wd = "world0\<lparr>rng := Suc (Suc (Suc (rng world0))),
      trace := trace world0 @ [Ev_normal, Ev_normal, Ev_normal]\<rparr>"
  note m = stub_value_is_max [of "[]" "Fin 1"]
  note su = stub_saturation_in_unit [of "[]" "Fin 1"]
  note bv = stub_rgb_below_value [of "[]" "Fin 1"]
  have d1: "delta_brightness ?s < - (1 / 255)" by (simp add: stub_estimator_fields)
  have d2: "delta_brightness ?s2 < 0" by (simp add: stub_estimator_fields)
  have nn: "\<not> noisy ?s2" by (simp add: noisy_def stub_estimator_fields)
  have d3: "0 < delta_brightness ?s3" by (simp add: stub_estimator_fields)
  have d3': "min (delta_brightness ?s3) 1 = 1 / 2" by (simp add: stub_estimator_fields)
  have p: "prepare ?E ?s2 eye4 white2x2 eye4 (Some depth2x2) world0 = (Inr (?fr, ?loc), ?wd)"
    by (simp add: stub_prepare_shifted stub_preprocess_dim)
  have tg: "targets ?fr [(0, 0), (1, 0)]
       = Inr ([(1 / 510, 1 / 510, 1 / 510), (1 / 510, 1 / 510, 1 / 510)], [Fin 1, Fin 1])"
    by (rule stub_targets_shifted)
  note t = brightness_shift_ranges [of ?s ?E white2x2 world0 eye4 eye4 "Some depth2x2"]
  from t white_within have 1: "channels_within 0 (1 / 255) (div255 (div255 white2x2))"
    by blast
  from t m white_within d1
  have 2: "list_all (\<lambda>v. v = 0) (values_of (shifted_hsv ?E ?s (div255 white2x2)))"
    by blast
  have 3: "fst (preprocess ?E ?s white2x2 world0) = [[(0, 0, 0), (0, 0, 0)], [(0, 0, 0), (0, 0, 0)]]"
    by (simp add: stub_preprocess_dark)
  note t2 = brightness_shift_ranges [of ?s2 ?E white2x2 world0 eye4 eye4 "Some depth2x2" ?fr ?loc ?wd
      "[(0, 0), (1, 0)]" "[(1 / 510, 1 / 510, 1 / 510), (1 / 510, 1 / 510, 1 / 510)]" "[Fin 1, Fin 1]"]
  from t2 m white_within d2
  have 4: "list_all (\<lambda>v. 0 \<le> v \<and> v \<le> 1 / 255) (values_of (shifted_hsv ?E ?s2 (div255 white2x2)))"
    by blast
  from t2 p m su bv white_within d2 nn tg
  have 5: "channels_within 0 (1 / 255) [[(1 / 510, 1 / 510, 1 / 510), (1 / 510, 1 / 510, 1 / 510)]]"
    by blast
  note t3 = brightness_shift_ranges [of ?s3 ?E white2x2 world0 eye4 eye4 "Some depth2x2"]
  from t3 m white_within d3
  have "list_all (\<lambda>v. min (delta_brightness ?s3) 1 \<le> v) (values_of (shifted_hsv ?E ?s3 (div255 white2x2)))"
    by blast
  then have 6: "list_all (\<lambda>v. 1 / 2 \<le> v) (values_of (shifted_hsv ?E ?s3 (div255 white2x2)))"
    by (simp only: d3')
  from p have 7: "fst (prepare ?E ?s2 eye4 white2x2 eye4 (Some depth2x2) world0) = Inr (?fr, ?loc)"
    by simp
  from m su bv white_within 1 d1 2 3 d2 nn 4 7 tg 5 d3 6 show ?thesis by blast
qed

end
